theory Spec2Isabelle
  imports Main
begin

section \<open>The packaging script \<^verbatim>\<open>create_package.py\<close>\<close>

text \<open>
  The script is one straight-line sequence of filesystem and library calls inside a
  \<^verbatim>\<open>try / except Exception / finally\<close>. The embedding threads an explicit state
  (working directory, standard output, the two file-name variables, a trace of the calls
  that were started) through one function per call. A call either completes or raises;
  a raise carries the message and the state at the moment of the raise, so that what a
  failed call has already put on disk is kept.
\<close>

subsection \<open>Working directory\<close>

text \<open>
  An entry of the working directory is a regular file with its bytes or a directory with
  its entries. The working directory itself maps a name to its entry. Symbolic links are
  not modelled: every statement below is about working directories that hold regular files
  and directories only.
\<close>

datatype node = File string | Dir "(string \<times> node) list"

type_synonym filesystem = "string \<Rightarrow> node option"

text \<open>Writing entry \<open>n\<close> of a directory: an older entry of that name is replaced.\<close>

definition dir_put :: "string \<Rightarrow> node \<Rightarrow> (string \<times> node) list \<Rightarrow> (string \<times> node) list" where
  "dir_put n v es = filter (\<lambda>e. fst e \<noteq> n) es @ [(n, v)]"

subsection \<open>Clock and \<^verbatim>\<open>strftime\<close>\<close>

text \<open>
  The fields of a clock reading, and the readings \<^verbatim>\<open>datetime.now()\<close> returns: the
  system clock counts from 1970 and \<^verbatim>\<open>datetime\<close> ends with the year 9999, so the year has
  four digits.
\<close>

record datetime_fields =
  year :: nat
  month :: nat
  day :: nat
  hour :: nat
  minute :: nat
  second :: nat

definition valid_datetime :: "datetime_fields \<Rightarrow> bool" where
  "valid_datetime t \<longleftrightarrow>
     1000 \<le> year t \<and> year t \<le> 9999 \<and> 1 \<le> month t \<and> month t \<le> 12 \<and>
     1 \<le> day t \<and> day t \<le> 31 \<and> hour t < 24 \<and> minute t < 60 \<and> second t < 60"

typedef datetime = "{t. valid_datetime t}"
  morphisms fields_of make_datetime
  by (rule exI [of _ "\<lparr>year = 1970, month = 1, day = 1, hour = 0, minute = 0, second = 0\<rparr>"])
     (simp add: valid_datetime_def)

setup_lifting type_definition_datetime

definition digit_char :: "nat \<Rightarrow> char" where
  "digit_char n = ''0123456789'' ! (n mod 10)"

fun dec :: "nat \<Rightarrow> string" where
  "dec n = (if n < 10 then [digit_char n] else dec (n div 10) @ [digit_char n])"

text \<open>\<^verbatim>\<open>%m %d %H %M %S\<close>: two digits, zero padded.\<close>

definition pad2 :: "nat \<Rightarrow> string" where
  "pad2 n = (if n < 10 then ''0'' @ dec n else dec n)"

text \<open>
  \<^verbatim>\<open>strftime("%Y%m%d%H%M%S")\<close>. \<^verbatim>\<open>%Y\<close> is the year in decimal; the C library
  underneath does not pad it.
\<close>

lift_definition strftime :: "datetime \<Rightarrow> string" is
  "\<lambda>t. dec (year t) @ pad2 (month t) @ pad2 (day t)
        @ pad2 (hour t) @ pad2 (minute t) @ pad2 (second t)" .

text \<open>Reading a decimal numeral back, to say what the digits of a version mean.\<close>

definition digit_value :: "char \<Rightarrow> nat" where
  "digit_value c = of_char c - 48"

definition read_nat :: "string \<Rightarrow> nat" where
  "read_nat s = foldl (\<lambda>a c. 10 * a + digit_value c) 0 s"

subsection \<open>Calls, environment, state\<close>

text \<open>The calls of the script that touch the filesystem, in source order.\<close>

datatype step =
    MakeDirs      \<comment> \<open>line 21: \<^verbatim>\<open>os.makedirs(TEMP_DIR, exist_ok=True)\<close>\<close>
  | OpenDummy     \<comment> \<open>line 24: \<^verbatim>\<open>open(dummy_file_path, "w")\<close>\<close>
  | WriteDummy    \<comment> \<open>lines 25-26: the two writes and the close\<close>
  | OpenTar       \<comment> \<open>line 36: \<^verbatim>\<open>tarfile.open(tar_file_name, "w")\<close>\<close>
  | TarAdd        \<comment> \<open>line 37: \<^verbatim>\<open>tar.add\<close> and the close\<close>
  | OpenTarIn     \<comment> \<open>line 42: \<^verbatim>\<open>open(tar_file_name, "rb")\<close>\<close>
  | OpenZstOut    \<comment> \<open>line 42: \<^verbatim>\<open>open(zst_file_name, "wb")\<close>\<close>
  | CopyStream    \<comment> \<open>line 43: \<^verbatim>\<open>cctx.copy_stream\<close> and the close\<close>
  | OpenZstIn     \<comment> \<open>line 48: \<^verbatim>\<open>open(zst_file_name, "rb")\<close>\<close>
  | ReadZst       \<comment> \<open>line 49: \<^verbatim>\<open>f.read()\<close>\<close>
  | Report        \<comment> \<open>lines 50-58: hashing the bytes read and printing the results block\<close>
  | RmScratch     \<comment> \<open>line 67: \<^verbatim>\<open>os.system("rm -rf ...")\<close>\<close>
  | RemoveTar     \<comment> \<open>line 69: \<^verbatim>\<open>os.remove(tar_file_name)\<close>\<close>

text \<open>
  The environment of a run: the clock, the three libraries the script calls (they are not
  part of the repository, so they are parameters), and the failures the operating system
  injects: \<open>fault k = Some (m, n)\<close> makes call \<open>k\<close> raise with message \<open>m\<close>, a writing
  call after \<open>n\<close> bytes have reached the file.
\<close>

record env =
  now :: datetime
  tar_pack :: "string \<Rightarrow> node \<Rightarrow> string"
  zstd_compress :: "string \<Rightarrow> string"
  sha256_hex :: "string \<Rightarrow> string"
  fault :: "step \<Rightarrow> (string \<times> nat) option"

text \<open>
  The state of a run. \<^verbatim>\<open>tar_file_name\<close> and \<^verbatim>\<open>zst_file_name\<close> are Python variables
  that are unbound until lines 31 and 32 assign them.
\<close>

record state =
  fs :: filesystem
  stdout :: "string list"
  tar_file_name :: "string option"
  zst_file_name :: "string option"
  trace :: "step list"

datatype result = Done state | Raised string state

fun and_then :: "result \<Rightarrow> (state \<Rightarrow> result) \<Rightarrow> result" where
  "and_then (Done s) f = f s"
| "and_then (Raised m s) f = Raised m s"

text \<open>How the process ends: normally, or with an exception nobody caught.\<close>

datatype outcome = Exit_normally | Uncaught string

definition initial :: "filesystem \<Rightarrow> state" where
  "initial fs0 = \<lparr>fs = fs0, stdout = [], tar_file_name = None, zst_file_name = None, trace = []\<rparr>"

definition print :: "string \<Rightarrow> state \<Rightarrow> state" where
  "print line s = s\<lparr>stdout := stdout s @ [line]\<rparr>"

definition enter :: "step \<Rightarrow> state \<Rightarrow> state" where
  "enter k s = s\<lparr>trace := trace s @ [k]\<rparr>"

subsection \<open>Configuration (lines 9-15)\<close>

definition PACKAGE_NAME :: string where
  "PACKAGE_NAME = ''nginx''"

definition PACKAGE_VERSION :: "env \<Rightarrow> string" where
  "PACKAGE_VERSION E = strftime (now E)"

definition TEMP_DIR :: string where
  "TEMP_DIR = ''temp_'' @ PACKAGE_NAME"

definition DUMMY_FILE_NAME :: string where
  "DUMMY_FILE_NAME = ''README.txt''"

definition dummy_file_path :: string where
  "dummy_file_path = TEMP_DIR @ ''/'' @ DUMMY_FILE_NAME"

definition dummy_content :: string where
  "dummy_content =
     ''This is a dummy file for the nginx package.'' @ [CHR 0x0A]
     @ ''This content should be used to generate a consistent checksum.'' @ [CHR 0x0A]"

definition tar_name :: "env \<Rightarrow> string" where
  "tar_name E = PACKAGE_NAME @ ''-'' @ PACKAGE_VERSION E @ ''.tar''"

definition zst_name :: "env \<Rightarrow> string" where
  "zst_name E = tar_name E @ ''.zst''"

subsection \<open>Error messages\<close>

definition quoted :: "string \<Rightarrow> string" where
  "quoted p = [CHR 0x27] @ p @ [CHR 0x27]"

definition file_exists_error :: "string \<Rightarrow> string" where
  "file_exists_error p = ''[Errno 17] File exists: '' @ quoted p"

definition is_a_directory_error :: "string \<Rightarrow> string" where
  "is_a_directory_error p = ''[Errno 21] Is a directory: '' @ quoted p"

definition file_not_found_error :: "string \<Rightarrow> string" where
  "file_not_found_error p = ''[Errno 2] No such file or directory: '' @ quoted p"

definition name_error :: "string \<Rightarrow> string" where
  "name_error v = ''name '' @ quoted v @ '' is not defined''"

subsection \<open>The calls of the \<^verbatim>\<open>try\<close> body\<close>

text \<open>
  Line 21. \<^verbatim>\<open>os.makedirs\<close> with \<^verbatim>\<open>exist_ok=True\<close> swallows every \<^verbatim>\<open>OSError\<close> of
  \<^verbatim>\<open>mkdir\<close> when the path is a directory afterwards, and re-raises it otherwise.
\<close>

definition makedirs :: "env \<Rightarrow> state \<Rightarrow> result" where
  "makedirs E s0 =
     (let s = enter MakeDirs s0 in
      case fs s TEMP_DIR of
        Some (Dir es) \<Rightarrow> Done s
      | Some (File b) \<Rightarrow>
          (case fault E MakeDirs of
             Some (m, n) \<Rightarrow> Raised m s
           | None \<Rightarrow> Raised (file_exists_error TEMP_DIR) s)
      | None \<Rightarrow>
          (case fault E MakeDirs of
             Some (m, n) \<Rightarrow> Raised m s
           | None \<Rightarrow> Done (s\<lparr>fs := (fs s)(TEMP_DIR \<mapsto> Dir [])\<rparr>)))"

text \<open>Storing entry \<open>DUMMY_FILE_NAME\<close> of the scratch directory.\<close>

definition put_dummy :: "string \<Rightarrow> filesystem \<Rightarrow> filesystem" where
  "put_dummy b f =
     (case f TEMP_DIR of
        Some (Dir es) \<Rightarrow> f(TEMP_DIR \<mapsto> Dir (dir_put DUMMY_FILE_NAME (File b) es))
      | _ \<Rightarrow> f)"

text \<open>Line 24: opening for writing creates the file or truncates it.\<close>

definition open_dummy :: "env \<Rightarrow> state \<Rightarrow> result" where
  "open_dummy E s0 =
     (let s = enter OpenDummy s0 in
      case fault E OpenDummy of
        Some (m, n) \<Rightarrow> Raised m s
      | None \<Rightarrow>
          (case fs s TEMP_DIR of
             Some (Dir es) \<Rightarrow>
               (case map_of es DUMMY_FILE_NAME of
                  Some (Dir ds) \<Rightarrow> Raised (is_a_directory_error dummy_file_path) s
                | _ \<Rightarrow> Done (s\<lparr>fs := put_dummy [] (fs s)\<rparr>))
           | _ \<Rightarrow> Raised (file_not_found_error dummy_file_path) s))"

text \<open>Lines 25-26: the two writes; a failure leaves the bytes written so far.\<close>

definition write_dummy :: "env \<Rightarrow> state \<Rightarrow> result" where
  "write_dummy E s0 =
     (let s = enter WriteDummy s0 in
      case fault E WriteDummy of
        Some (m, n) \<Rightarrow> Raised m (s\<lparr>fs := put_dummy (take n dummy_content) (fs s)\<rparr>)
      | None \<Rightarrow> Done (s\<lparr>fs := put_dummy dummy_content (fs s)\<rparr>))"

text \<open>Opening a file of the working directory for writing (lines 36 and 42).\<close>

definition open_write :: "env \<Rightarrow> step \<Rightarrow> string \<Rightarrow> state \<Rightarrow> result" where
  "open_write E k p s0 =
     (let s = enter k s0 in
      case fault E k of
        Some (m, n) \<Rightarrow> Raised m s
      | None \<Rightarrow>
          (case fs s p of
             Some (Dir es) \<Rightarrow> Raised (is_a_directory_error p) s
           | _ \<Rightarrow> Done (s\<lparr>fs := (fs s)(p \<mapsto> File [])\<rparr>)))"

text \<open>Opening a file of the working directory for reading (lines 42 and 48).\<close>

definition open_read :: "env \<Rightarrow> step \<Rightarrow> string \<Rightarrow> state \<Rightarrow> result" where
  "open_read E k p s0 =
     (let s = enter k s0 in
      case fault E k of
        Some (m, n) \<Rightarrow> Raised m s
      | None \<Rightarrow>
          (case fs s p of
             Some (File b) \<Rightarrow> Done s
           | Some (Dir es) \<Rightarrow> Raised (is_a_directory_error p) s
           | None \<Rightarrow> Raised (file_not_found_error p) s))"

text \<open>The bytes of a regular file; nothing for what is not one.\<close>

definition bytes_of :: "filesystem \<Rightarrow> string \<Rightarrow> string" where
  "bytes_of f p = (case f p of Some (File b) \<Rightarrow> b | _ \<Rightarrow> [])"

text \<open>\<^verbatim>\<open>os.path.basename\<close>: what follows the last slash.\<close>

definition basename :: "string \<Rightarrow> string" where
  "basename p = rev (takeWhile (\<lambda>c. c \<noteq> CHR ''/'') (rev p))"

text \<open>
  Line 37: the scratch directory, with everything in it, goes into the archive under its
  base name.
\<close>

definition tar_add :: "env \<Rightarrow> string \<Rightarrow> state \<Rightarrow> result" where
  "tar_add E t s0 =
     (let s = enter TarAdd s0 in
      case fs s TEMP_DIR of
        None \<Rightarrow> Raised (file_not_found_error TEMP_DIR) s
      | Some d \<Rightarrow>
          (case fault E TarAdd of
             Some (m, n) \<Rightarrow> Raised m (s\<lparr>fs := (fs s)(t \<mapsto> File (take n (tar_pack E (basename TEMP_DIR) d)))\<rparr>)
           | None \<Rightarrow> Done (s\<lparr>fs := (fs s)(t \<mapsto> File (tar_pack E (basename TEMP_DIR) d))\<rparr>)))"

text \<open>Line 43: the whole tar file is compressed into the output file.\<close>

definition copy_stream :: "env \<Rightarrow> string \<Rightarrow> string \<Rightarrow> state \<Rightarrow> result" where
  "copy_stream E t z s0 =
     (let s = enter CopyStream s0;
          out = zstd_compress E (bytes_of (fs s) t) in
      case fault E CopyStream of
        Some (m, n) \<Rightarrow> Raised m (s\<lparr>fs := (fs s)(z \<mapsto> File (take n out))\<rparr>)
      | None \<Rightarrow> Done (s\<lparr>fs := (fs s)(z \<mapsto> File out)\<rparr>))"

text \<open>
  Lines 49-58: read the whole output file; then hash what was read and print the results
  block, which cannot fail.
\<close>

definition report :: "env \<Rightarrow> string \<Rightarrow> string \<Rightarrow> state \<Rightarrow> state" where
  "report E z buf s0 =
     (let s = enter Report s0;
          checksum = sha256_hex E buf in
      print ([CHR 0x0A] @ ''You can now use this checksum to update your packages.json file.'')
     (print (''Checksum: '' @ checksum)
     (print (''File created: '' @ z)
     (print ([CHR 0x0A] @ ''--- Results for your packages.json file ---'') s))))"

definition read_and_report :: "env \<Rightarrow> string \<Rightarrow> state \<Rightarrow> result" where
  "read_and_report E z s0 =
     (let s = enter ReadZst s0 in
      case fault E ReadZst of
        Some (m, n) \<Rightarrow> Raised m s
      | None \<Rightarrow> Done (report E z (bytes_of (fs s) z) s))"

subsection \<open>The \<^verbatim>\<open>try\<close> body, the handler, the cleanup\<close>

text \<open>Lines 19-28.\<close>

definition create_scratch :: "env \<Rightarrow> state \<Rightarrow> result" where
  "create_scratch E s =
     and_then (and_then (and_then
       (makedirs E (print (''Creating temporary directory: '' @ TEMP_DIR) s))
       (open_dummy E))
       (write_dummy E))
       (\<lambda>s. Done (print (''Created dummy file: '' @ dummy_file_path) s))"

text \<open>Lines 31-32.\<close>

definition bind_names :: "env \<Rightarrow> state \<Rightarrow> state" where
  "bind_names E s = s\<lparr>tar_file_name := Some (tar_name E), zst_file_name := Some (zst_name E)\<rparr>"

text \<open>Lines 35-58.\<close>

definition archive_and_hash :: "env \<Rightarrow> state \<Rightarrow> result" where
  "archive_and_hash E s =
     (let t = tar_name E; z = zst_name E in
      and_then (and_then (and_then (and_then (and_then (and_then
        (open_write E OpenTar t (print (''Creating tar archive: '' @ t) s))
        (tar_add E t))
        (\<lambda>s. open_read E OpenTarIn t (print (''Compressing with Zstandard: '' @ z) s)))
        (open_write E OpenZstOut z))
        (copy_stream E t z))
        (\<lambda>s. open_read E OpenZstIn z (print (''Calculating SHA256 checksum of '' @ z) s)))
        (read_and_report E z))"

definition try_body :: "env \<Rightarrow> state \<Rightarrow> result" where
  "try_body E s = and_then (create_scratch E s) (\<lambda>s. archive_and_hash E (bind_names E s))"

text \<open>Lines 60-61.\<close>

fun handler :: "result \<Rightarrow> state" where
  "handler (Done s) = s"
| "handler (Raised m s) = print (''An error occurred: '' @ m) s"

text \<open>
  Line 67. \<^verbatim>\<open>os.system\<close> does not raise, and the script drops the status of
  \<^verbatim>\<open>rm -rf\<close>. When \<^verbatim>\<open>rm\<close> fails (\<open>fault E RmScratch = Some (m, n)\<close>) the entry stays:
  a directory with the entries \<^verbatim>\<open>rm\<close> could not remove, which the model takes to be its
  first \<open>n\<close>.
\<close>

definition leftover :: "nat \<Rightarrow> node \<Rightarrow> node" where
  "leftover n d = (case d of Dir es \<Rightarrow> Dir (take n es) | File b \<Rightarrow> File b)"

definition rm_scratch :: "env \<Rightarrow> state \<Rightarrow> state" where
  "rm_scratch E s0 =
     (case fs s0 TEMP_DIR of
        None \<Rightarrow> s0
      | Some d \<Rightarrow>
          (let s = enter RmScratch s0 in
           case fault E RmScratch of
             None \<Rightarrow> s\<lparr>fs := (fs s)(TEMP_DIR := None)\<rparr>
           | Some (m, n) \<Rightarrow> s\<lparr>fs := (fs s)(TEMP_DIR \<mapsto> leftover n d)\<rparr>))"

text \<open>
  Lines 68-69. Reading the unbound variable \<^verbatim>\<open>tar_file_name\<close> raises \<^verbatim>\<open>NameError\<close>;
  \<^verbatim>\<open>os.remove\<close> raises when the operating system refuses, and on a directory. Nothing
  catches these, and the file stays.
\<close>

definition remove_tar :: "env \<Rightarrow> state \<Rightarrow> outcome \<times> state" where
  "remove_tar E s0 =
     (case tar_file_name s0 of
        None \<Rightarrow> (Uncaught (name_error ''tar_file_name''), s0)
      | Some t \<Rightarrow>
          (case fs s0 t of
             None \<Rightarrow> (Exit_normally, s0)
           | Some d \<Rightarrow>
               (let s = enter RemoveTar s0 in
                case fault E RemoveTar of
                  Some (m, n) \<Rightarrow> (Uncaught m, s)
                | None \<Rightarrow>
                    (case d of
                       File b \<Rightarrow> (Exit_normally, s\<lparr>fs := (fs s)(t := None)\<rparr>)
                     | Dir es \<Rightarrow> (Uncaught (is_a_directory_error t), s)))))"

text \<open>Lines 63-69.\<close>

definition cleanup :: "env \<Rightarrow> state \<Rightarrow> outcome \<times> state" where
  "cleanup E s =
     remove_tar E
       (rm_scratch E (print ([CHR 0x0A] @ ''Cleaning up temporary directory: '' @ TEMP_DIR) s))"

definition run :: "env \<Rightarrow> filesystem \<Rightarrow> outcome \<times> state" where
  "run E fs0 = cleanup E (handler (try_body E (initial fs0)))"

text \<open>A run is successful when its \<^verbatim>\<open>try\<close> body completes without raising.\<close>

fun completed :: "result \<Rightarrow> bool" where
  "completed (Done s) = True"
| "completed (Raised m s) = False"

definition successful :: "env \<Rightarrow> filesystem \<Rightarrow> bool" where
  "successful E fs0 = completed (try_body E (initial fs0))"

text \<open>The calls of the \<^verbatim>\<open>try\<close> body in the order of the source.\<close>

definition happy_path :: "step list" where
  "happy_path = [MakeDirs, OpenDummy, WriteDummy, OpenTar, TarAdd, OpenTarIn,
                 OpenZstOut, CopyStream, OpenZstIn, ReadZst, Report]"

subsection \<open>Reading the output file back\<close>

text \<open>
  Decompressing and extracting, with a decompressor and an extractor supplied from
  outside; the extractor returns the top-level entries of the archive.
\<close>

definition extract_archive ::
  "(string \<Rightarrow> string option) \<Rightarrow> (string \<Rightarrow> (string \<times> node) list option) \<Rightarrow> string
     \<Rightarrow> (string \<times> node) list option" where
  "extract_archive unzstd untar z = (case unzstd z of None \<Rightarrow> None | Some t \<Rightarrow> untar t)"

text \<open>The pattern \<^verbatim>\<open>nginx-\d{14}\.tar\.zst\<close>, checked position by position.\<close>

definition is_digit :: "char \<Rightarrow> bool" where
  "is_digit c \<longleftrightarrow> c \<in> set ''0123456789''"

definition matches_output_pattern :: "string \<Rightarrow> bool" where
  "matches_output_pattern s \<longleftrightarrow>
     length s = 28 \<and> take 6 s = ''nginx-'' \<and> list_all is_digit (take 14 (drop 6 s)) \<and>
     drop 20 s = ''.tar.zst''"

text \<open>The entry \<^verbatim>\<open>README.txt\<close> among \<open>es\<close> is a directory.\<close>

definition readme_is_dir :: "(string \<times> node) list \<Rightarrow> bool" where
  "readme_is_dir es = (case map_of es DUMMY_FILE_NAME of Some (Dir ds) \<Rightarrow> True | _ \<Rightarrow> False)"

text \<open>The scratch directory holds nothing but the placeholder, or does not exist.\<close>

definition scratch_fresh :: "filesystem \<Rightarrow> bool" where
  "scratch_fresh f =
     (case f TEMP_DIR of
        Some (Dir es) \<Rightarrow> list_all (\<lambda>e. fst e = DUMMY_FILE_NAME) es
      | _ \<Rightarrow> True)"

subsection \<open>A concrete environment\<close>

text \<open>
  Stand-ins for the three libraries, small enough to evaluate: the archive lists the
  entries with their bytes, the compressor reverses its input, the digest is a length.
  The extractor recognises an archive among given candidates by packing each of them.
\<close>

definition demo_pack :: "string \<Rightarrow> node \<Rightarrow> string" where
  "demo_pack n d =
     n @ ''/'' @ (case d of
                   File b \<Rightarrow> b
                 | Dir es \<Rightarrow> concat (map (\<lambda>e. fst e @ ''='' @ (case snd e of File b \<Rightarrow> b | Dir ds \<Rightarrow> ''/'') @ '';'') es))"

definition demo_untar :: "(string \<times> node) list \<Rightarrow> string \<Rightarrow> (string \<times> node) list option" where
  "demo_untar candidates b =
     map_option (\<lambda>e. [e]) (find (\<lambda>e. demo_pack (fst e) (snd e) = b) candidates)"

definition demo_unzstd :: "string \<Rightarrow> string option" where
  "demo_unzstd b = Some (rev b)"

lift_definition demo_now :: datetime is
  "\<lparr>year = 2026, month = 11, day = 3, hour = 17, minute = 32, second = 5\<rparr>"
  by (simp add: valid_datetime_def)

lift_definition new_year_now :: datetime is
  "\<lparr>year = 2027, month = 1, day = 1, hour = 0, minute = 0, second = 9\<rparr>"
  by (simp add: valid_datetime_def)

definition demo_env :: "(step \<Rightarrow> (string \<times> nat) option) \<Rightarrow> env" where
  "demo_env f = \<lparr>now = demo_now, tar_pack = demo_pack, zstd_compress = rev,
                 sha256_hex = (\<lambda>b. dec (length b)), fault = f\<rparr>"

definition no_fault :: "step \<Rightarrow> (string \<times> nat) option" where
  "no_fault k = None"

definition fault_at :: "step \<Rightarrow> string \<Rightarrow> nat \<Rightarrow> step \<Rightarrow> (string \<times> nat) option" where
  "fault_at k m n j = (if j = k then Some (m, n) else None)"

definition empty_dir :: filesystem where
  "empty_dir p = None"

subsection \<open>Auxiliary notions for the statements\<close>

text \<open>The state in which a result leaves the run.\<close>

fun state_of :: "result \<Rightarrow> state" where
  "state_of (Done s) = s"
| "state_of (Raised m s) = s"

text \<open>The entries of the scratch directory before the run, and the directory as archived.\<close>

definition scratch_entries :: "filesystem \<Rightarrow> (string \<times> node) list" where
  "scratch_entries f = (case f TEMP_DIR of Some (Dir es) \<Rightarrow> es | _ \<Rightarrow> [])"

definition scratch_tree :: "filesystem \<Rightarrow> node" where
  "scratch_tree f = Dir (dir_put DUMMY_FILE_NAME (File dummy_content) (scratch_entries f))"

text \<open>Lines 55-58 for the bytes \<open>b\<close> that were hashed.\<close>

definition results_block :: "env \<Rightarrow> string \<Rightarrow> string list" where
  "results_block E b =
     [[CHR 0x0A] @ ''--- Results for your packages.json file ---'',
      ''File created: '' @ zst_name E,
      ''Checksum: '' @ sha256_hex E b,
      [CHR 0x0A] @ ''You can now use this checksum to update your packages.json file.'']"

text \<open>What a raise in lines 35-58 leaves behind, call by call.\<close>

definition raised_in_archive :: "env \<Rightarrow> state \<Rightarrow> state \<Rightarrow> bool" where
  "raised_in_archive E s s' \<longleftrightarrow>
     (trace s' = trace s @ [OpenTar] \<and> fs s' = fs s) \<or>
     ((trace s' = trace s @ [OpenTar, TarAdd] \<or>
       trace s' = trace s @ [OpenTar, TarAdd, OpenTarIn] \<or>
       trace s' = trace s @ [OpenTar, TarAdd, OpenTarIn, OpenZstOut]) \<and>
      (\<exists>b. fs s' = (fs s)(tar_name E \<mapsto> File b))) \<or>
     (trace s' = trace s @ [OpenTar, TarAdd, OpenTarIn, OpenZstOut, CopyStream] \<and>
      (\<exists>d n. fs s TEMP_DIR = Some d \<and>
         fs s' = (fs s)(tar_name E \<mapsto> File (tar_pack E TEMP_DIR d),
                        zst_name E \<mapsto> File (take n (zstd_compress E (tar_pack E TEMP_DIR d)))))) \<or>
     ((trace s' = trace s @ [OpenTar, TarAdd, OpenTarIn, OpenZstOut, CopyStream, OpenZstIn] \<or>
       trace s' = trace s @ [OpenTar, TarAdd, OpenTarIn, OpenZstOut, CopyStream, OpenZstIn, ReadZst]) \<and>
      (\<exists>d. fs s TEMP_DIR = Some d \<and>
         fs s' = (fs s)(tar_name E \<mapsto> File (tar_pack E TEMP_DIR d),
                        zst_name E \<mapsto> File (zstd_compress E (tar_pack E TEMP_DIR d)))))"

text \<open>The state when the \<^verbatim>\<open>try\<close> body is left, by completion or by a raise.\<close>

definition try_state :: "env \<Rightarrow> filesystem \<Rightarrow> state" where
  "try_state E fs0 = state_of (try_body E (initial fs0))"

text \<open>The scratch directory as a fresh run archives it.\<close>

definition placeholder_tree :: node where
  "placeholder_tree = Dir [(DUMMY_FILE_NAME, File dummy_content)]"

text \<open>Messages of the operating system, and working directories to start from.\<close>

definition permission_denied :: "string \<Rightarrow> string" where
  "permission_denied p = ''[Errno 13] Permission denied: '' @ quoted p"

definition no_space_left :: string where
  "no_space_left = ''[Errno 28] No space left on device''"

definition old_tree :: node where
  "old_tree = Dir [(''old.txt'', File ''old'')]"

definition with_old_file :: filesystem where
  "with_old_file p = (if p = TEMP_DIR then Some old_tree else None)"

definition demo_candidates :: "(string \<times> node) list" where
  "demo_candidates =
     [(TEMP_DIR, placeholder_tree),
      (TEMP_DIR, Dir [(''old.txt'', File ''old''), (DUMMY_FILE_NAME, File dummy_content)])]"


definition writing_fails :: env where
  "writing_fails = demo_env (fault_at WriteDummy no_space_left 10)"

definition compressing_fails :: env where
  "compressing_fails = demo_env (fault_at CopyStream no_space_left 7)"

definition read_only :: env where
  "read_only = demo_env (fault_at MakeDirs (permission_denied TEMP_DIR) 0)"

definition placeholder_unwritable :: env where
  "placeholder_unwritable = demo_env (fault_at OpenDummy (permission_denied dummy_file_path) 0)"

definition new_year_env :: env where
  "new_year_env = (demo_env no_fault)\<lparr>now := new_year_now\<rparr>"

definition with_empty_scratch :: filesystem where
  "with_empty_scratch p = (if p = TEMP_DIR then Some (Dir []) else None)"

definition with_stale_readme :: filesystem where
  "with_stale_readme p =
     (if p = TEMP_DIR then Some (Dir [(DUMMY_FILE_NAME, File ''stale'')]) else None)"

text \<open>
  A working directory that is read-only but holds a writable scratch directory: the tar
  file cannot be created, and \<^verbatim>\<open>rm -rf\<close> empties the scratch directory but cannot
  remove it.
\<close>

definition read_only_around_scratch :: env where
  "read_only_around_scratch =
     demo_env (\<lambda>k. if k = OpenTar then Some (permission_denied ''nginx-20261103173205.tar'', 0)
                   else if k = RmScratch then Some (''rm: cannot remove'', 0)
                   else None)"

definition with_stale_tar :: filesystem where
  "with_stale_tar p = (if p = ''nginx-20261103173205.tar'' then Some (File ''stale'') else None)"

section \<open>Properties of the calls\<close>

lemma basename_TEMP_DIR: "basename TEMP_DIR = TEMP_DIR"
  by (simp add: basename_def TEMP_DIR_def PACKAGE_NAME_def)

lemma and_then_Done: "and_then r f = Done s' \<longleftrightarrow> (\<exists>s. r = Done s \<and> f s = Done s')"
  by (cases r) auto

lemma and_then_Raised:
  "and_then r f = Raised m s' \<longleftrightarrow> r = Raised m s' \<or> (\<exists>s. r = Done s \<and> f s = Raised m s')"
  by (cases r) auto

lemma temp_neq_tar: "TEMP_DIR \<noteq> tar_name E"
  by (simp add: TEMP_DIR_def tar_name_def PACKAGE_NAME_def)

lemma temp_neq_zst: "TEMP_DIR \<noteq> zst_name E"
  by (simp add: TEMP_DIR_def zst_name_def tar_name_def PACKAGE_NAME_def)

lemma tar_neq_zst: "tar_name E \<noteq> zst_name E"
  by (simp add: zst_name_def)

lemma makedirs_Done:
  "makedirs E s = Done s' \<Longrightarrow>
     s' = (enter MakeDirs s)\<lparr>fs := (fs s)(TEMP_DIR \<mapsto> Dir (scratch_entries (fs s)))\<rparr>"
  by (auto simp: makedirs_def scratch_entries_def enter_def Let_def fun_upd_idem
           split: option.splits node.splits)

lemma makedirs_Raised: "makedirs E s = Raised m s' \<Longrightarrow> s' = enter MakeDirs s"
  by (auto simp: makedirs_def Let_def split: option.splits node.splits)

lemma open_dummy_Done:
  "open_dummy E s = Done s' \<Longrightarrow> s' = (enter OpenDummy s)\<lparr>fs := put_dummy [] (fs s)\<rparr>"
  by (auto simp: open_dummy_def enter_def Let_def split: option.splits node.splits)

lemma open_dummy_Raised: "open_dummy E s = Raised m s' \<Longrightarrow> s' = enter OpenDummy s"
  by (auto simp: open_dummy_def Let_def split: option.splits node.splits)

lemma write_dummy_Done:
  "write_dummy E s = Done s' \<Longrightarrow> s' = (enter WriteDummy s)\<lparr>fs := put_dummy dummy_content (fs s)\<rparr>"
  by (auto simp: write_dummy_def enter_def Let_def split: option.splits)

lemma write_dummy_Raised:
  "write_dummy E s = Raised m s' \<Longrightarrow>
     \<exists>n. s' = (enter WriteDummy s)\<lparr>fs := put_dummy (take n dummy_content) (fs s)\<rparr>"
  by (auto simp: write_dummy_def enter_def Let_def split: option.splits)

lemma open_write_Done:
  "open_write E k p s = Done s' \<Longrightarrow> s' = (enter k s)\<lparr>fs := (fs s)(p \<mapsto> File [])\<rparr>"
  by (auto simp: open_write_def enter_def Let_def split: option.splits node.splits)

lemma open_write_Raised: "open_write E k p s = Raised m s' \<Longrightarrow> s' = enter k s"
  by (auto simp: open_write_def Let_def split: option.splits node.splits)

lemma open_read_Done:
  "open_read E k p s = Done s' \<Longrightarrow> s' = enter k s \<and> (\<exists>b. fs s p = Some (File b))"
  by (auto simp: open_read_def enter_def Let_def split: option.splits node.splits)

lemma open_read_Raised: "open_read E k p s = Raised m s' \<Longrightarrow> s' = enter k s"
  by (auto simp: open_read_def Let_def split: option.splits node.splits)

lemma tar_add_Done:
  "tar_add E t s = Done s' \<Longrightarrow>
     \<exists>d. fs s TEMP_DIR = Some d \<and> s' = (enter TarAdd s)\<lparr>fs := (fs s)(t \<mapsto> File (tar_pack E TEMP_DIR d))\<rparr>"
  by (auto simp: tar_add_def enter_def Let_def basename_TEMP_DIR split: option.splits)

lemma tar_add_Raised:
  "tar_add E t s = Raised m s' \<Longrightarrow>
     s' = enter TarAdd s \<or> (\<exists>b. s' = (enter TarAdd s)\<lparr>fs := (fs s)(t \<mapsto> File b)\<rparr>)"
  by (auto simp: tar_add_def enter_def Let_def basename_TEMP_DIR split: option.splits)

lemma copy_stream_Done:
  "copy_stream E t z s = Done s' \<Longrightarrow>
     s' = (enter CopyStream s)\<lparr>fs := (fs s)(z \<mapsto> File (zstd_compress E (bytes_of (fs s) t)))\<rparr>"
  by (auto simp: copy_stream_def enter_def Let_def split: option.splits)

lemma copy_stream_Raised:
  "copy_stream E t z s = Raised m s' \<Longrightarrow>
     \<exists>n. s' = (enter CopyStream s)\<lparr>fs := (fs s)(z \<mapsto> File (take n (zstd_compress E (bytes_of (fs s) t))))\<rparr>"
  by (auto simp: copy_stream_def enter_def Let_def split: option.splits)

lemma read_and_report_Done:
  "read_and_report E z s = Done s' \<Longrightarrow> s' = report E z (bytes_of (fs s) z) (enter ReadZst s)"
  by (auto simp: read_and_report_def enter_def Let_def split: option.splits)

lemma read_and_report_Raised: "read_and_report E z s = Raised m s' \<Longrightarrow> s' = enter ReadZst s"
  by (auto simp: read_and_report_def Let_def split: option.splits)

lemma dir_put_twice: "dir_put n v (dir_put n w es) = dir_put n v es"
  by (simp add: dir_put_def)

lemma put_dummy_upd:
  "put_dummy b (f(TEMP_DIR \<mapsto> Dir es)) = f(TEMP_DIR \<mapsto> Dir (dir_put DUMMY_FILE_NAME (File b) es))"
  by (simp add: put_dummy_def)

lemma create_scratch_Done:
  assumes "create_scratch E s = Done s'"
  shows "fs s' = (fs s)(TEMP_DIR \<mapsto> scratch_tree (fs s))"
    and "trace s' = trace s @ [MakeDirs, OpenDummy, WriteDummy]"
    and "stdout s' = stdout s @ [''Creating temporary directory: '' @ TEMP_DIR,
                                 ''Created dummy file: '' @ dummy_file_path]"
    and "tar_file_name s' = tar_file_name s"
    and "zst_file_name s' = zst_file_name s"
proof -
  from assms obtain a b c where
    a: "makedirs E (print (''Creating temporary directory: '' @ TEMP_DIR) s) = Done a" and
    b: "open_dummy E a = Done b" and
    c: "write_dummy E b = Done c" and
    s': "s' = print (''Created dummy file: '' @ dummy_file_path) c"
    by (auto simp: create_scratch_def and_then_Done)
  note eqs = makedirs_Done [OF a] open_dummy_Done [OF b] write_dummy_Done [OF c] s'
  show "fs s' = (fs s)(TEMP_DIR \<mapsto> scratch_tree (fs s))"
    by (simp add: eqs enter_def print_def put_dummy_upd dir_put_twice scratch_tree_def)
  show "trace s' = trace s @ [MakeDirs, OpenDummy, WriteDummy]"
    by (simp add: eqs enter_def print_def)
  show "stdout s' = stdout s @ [''Creating temporary directory: '' @ TEMP_DIR,
                                 ''Created dummy file: '' @ dummy_file_path]"
    by (simp add: eqs enter_def print_def)
  show "tar_file_name s' = tar_file_name s"
    by (simp add: eqs enter_def print_def)
  show "zst_file_name s' = zst_file_name s"
    by (simp add: eqs enter_def print_def)
qed

lemma put_dummy_frame: "p \<noteq> TEMP_DIR \<Longrightarrow> put_dummy b f p = f p"
  by (simp add: put_dummy_def split: option.splits node.splits)

lemma put_dummy_scratch: "(put_dummy b f TEMP_DIR = None) = (f TEMP_DIR = None)"
  by (simp add: put_dummy_def split: option.splits node.splits)

lemma create_scratch_Raised:
  assumes "create_scratch E s = Raised m s'"
  shows "trace s' = trace s @ [MakeDirs] \<or> trace s' = trace s @ [MakeDirs, OpenDummy]
         \<or> trace s' = trace s @ [MakeDirs, OpenDummy, WriteDummy]"
    and "p \<noteq> TEMP_DIR \<Longrightarrow> fs s' p = fs s p"
    and "tar_file_name s' = tar_file_name s"
    and "zst_file_name s' = zst_file_name s"
proof -
  let ?s0 = "print (''Creating temporary directory: '' @ TEMP_DIR) s"
  from assms consider
    (1) "makedirs E ?s0 = Raised m s'"
  | (2) a where "makedirs E ?s0 = Done a" "open_dummy E a = Raised m s'"
  | (3) a b where "makedirs E ?s0 = Done a" "open_dummy E a = Done b" "write_dummy E b = Raised m s'"
    by (auto simp: create_scratch_def and_then_Raised and_then_Done)
  then have "(trace s' = trace s @ [MakeDirs] \<or> trace s' = trace s @ [MakeDirs, OpenDummy]
         \<or> trace s' = trace s @ [MakeDirs, OpenDummy, WriteDummy])
       \<and> (p \<noteq> TEMP_DIR \<longrightarrow> fs s' p = fs s p)
       \<and> tar_file_name s' = tar_file_name s \<and> zst_file_name s' = zst_file_name s"
  proof cases
    case 1
    then show ?thesis
      by (auto dest!: makedirs_Raised simp: enter_def print_def)
  next
    case 2
    then show ?thesis
      by (auto dest!: makedirs_Done open_dummy_Raised simp: enter_def print_def)
  next
    case 3
    then show ?thesis
      by (auto dest!: makedirs_Done open_dummy_Done write_dummy_Raised
               simp: enter_def print_def put_dummy_frame)
  qed
  then show "trace s' = trace s @ [MakeDirs] \<or> trace s' = trace s @ [MakeDirs, OpenDummy]
         \<or> trace s' = trace s @ [MakeDirs, OpenDummy, WriteDummy]"
    and "p \<noteq> TEMP_DIR \<Longrightarrow> fs s' p = fs s p"
    and "tar_file_name s' = tar_file_name s"
    and "zst_file_name s' = zst_file_name s"
    by simp_all
qed

lemma bytes_of_File: "f p = Some (File b) \<Longrightarrow> bytes_of f p = b"
  by (simp add: bytes_of_def)

lemma archive_and_hash_Done:
  assumes "archive_and_hash E s = Done s'"
  shows "\<exists>d. fs s TEMP_DIR = Some d \<and>
           fs s' = (fs s)(tar_name E \<mapsto> File (tar_pack E TEMP_DIR d),
                          zst_name E \<mapsto> File (zstd_compress E (tar_pack E TEMP_DIR d))) \<and>
           stdout s' = stdout s @
             [''Creating tar archive: '' @ tar_name E,
              ''Compressing with Zstandard: '' @ zst_name E,
              ''Calculating SHA256 checksum of '' @ zst_name E]
             @ results_block E (zstd_compress E (tar_pack E TEMP_DIR d))"
    and "trace s' = trace s @ [OpenTar, TarAdd, OpenTarIn, OpenZstOut, CopyStream, OpenZstIn, ReadZst, Report]"
    and "tar_file_name s' = tar_file_name s"
    and "zst_file_name s' = zst_file_name s"
proof -
  let ?t = "tar_name E" and ?z = "zst_name E"
  from assms obtain a b c d e f where
    a: "open_write E OpenTar ?t (print (''Creating tar archive: '' @ ?t) s) = Done a" and
    b: "tar_add E ?t a = Done b" and
    c: "open_read E OpenTarIn ?t (print (''Compressing with Zstandard: '' @ ?z) b) = Done c" and
    d: "open_write E OpenZstOut ?z c = Done d" and
    e: "copy_stream E ?t ?z d = Done e" and
    f: "open_read E OpenZstIn ?z (print (''Calculating SHA256 checksum of '' @ ?z) e) = Done f" and
    s': "read_and_report E ?z f = Done s'"
    by (auto simp: archive_and_hash_def and_then_Done Let_def)
  from tar_add_Done [OF b] obtain n where
    n: "fs a TEMP_DIR = Some n" and
    b': "b = (enter TarAdd a)\<lparr>fs := (fs a)(?t \<mapsto> File (tar_pack E TEMP_DIR n))\<rparr>"
    by blast
  note a' = open_write_Done [OF a]
  have c': "c = enter OpenTarIn (print (''Compressing with Zstandard: '' @ ?z) b)"
    using open_read_Done [OF c] by simp
  note d' = open_write_Done [OF d]
  note e' = copy_stream_Done [OF e]
  have f': "f = enter OpenZstIn (print (''Calculating SHA256 checksum of '' @ ?z) e)"
    using open_read_Done [OF f] by simp
  note s'' = read_and_report_Done [OF s']
  have n0: "fs s TEMP_DIR = Some n"
    using n temp_neq_tar [of E] by (simp add: a' enter_def print_def)
  have fs_d: "fs d = (fs s)(?t \<mapsto> File (tar_pack E TEMP_DIR n), ?z \<mapsto> File [])"
    by (simp add: d' c' b' a' enter_def print_def)
  have tar_d: "bytes_of (fs d) ?t = tar_pack E TEMP_DIR n"
    using tar_neq_zst [of E] by (simp add: fs_d bytes_of_def)
  have fs_e: "fs e = (fs s)(?t \<mapsto> File (tar_pack E TEMP_DIR n),
                          ?z \<mapsto> File (zstd_compress E (tar_pack E TEMP_DIR n)))"
    using tar_d by (simp add: e' fs_d enter_def)
  have fs_f: "fs f = fs e"
    by (simp add: f' enter_def print_def)
  have zst_f: "bytes_of (fs f) ?z = zstd_compress E (tar_pack E TEMP_DIR n)"
    by (simp add: fs_f fs_e bytes_of_def)
  have "fs s' = fs e"
    by (simp add: s'' report_def fs_f enter_def print_def Let_def)
  moreover have "stdout s' = stdout s @
             [''Creating tar archive: '' @ ?t,
              ''Compressing with Zstandard: '' @ ?z,
              ''Calculating SHA256 checksum of '' @ ?z]
             @ results_block E (zstd_compress E (tar_pack E TEMP_DIR n))"
    unfolding s'' zst_f
    by (simp add: report_def f' e' d' c' b' a' enter_def print_def Let_def results_block_def)
  ultimately show "\<exists>d. fs s TEMP_DIR = Some d \<and>
           fs s' = (fs s)(tar_name E \<mapsto> File (tar_pack E TEMP_DIR d),
                          zst_name E \<mapsto> File (zstd_compress E (tar_pack E TEMP_DIR d))) \<and>
           stdout s' = stdout s @
             [''Creating tar archive: '' @ tar_name E,
              ''Compressing with Zstandard: '' @ zst_name E,
              ''Calculating SHA256 checksum of '' @ zst_name E]
             @ results_block E (zstd_compress E (tar_pack E TEMP_DIR d))"
    using n0 fs_e by simp
  show "trace s' = trace s @ [OpenTar, TarAdd, OpenTarIn, OpenZstOut, CopyStream, OpenZstIn, ReadZst, Report]"
    by (simp add: s'' report_def f' e' d' c' b' a' enter_def print_def Let_def)
  show "tar_file_name s' = tar_file_name s"
    by (simp add: s'' report_def f' e' d' c' b' a' enter_def print_def Let_def)
  show "zst_file_name s' = zst_file_name s"
    by (simp add: s'' report_def f' e' d' c' b' a' enter_def print_def Let_def)
qed

lemma print_fields [simp]:
  "fs (print l s) = fs s" "trace (print l s) = trace s" "stdout (print l s) = stdout s @ [l]"
  "tar_file_name (print l s) = tar_file_name s" "zst_file_name (print l s) = zst_file_name s"
  by (simp_all add: print_def)

lemma enter_fields [simp]:
  "fs (enter k s) = fs s" "trace (enter k s) = trace s @ [k]" "stdout (enter k s) = stdout s"
  "tar_file_name (enter k s) = tar_file_name s" "zst_file_name (enter k s) = zst_file_name s"
  by (simp_all add: enter_def)

lemma archive_and_hash_Raised:
  assumes "archive_and_hash E s = Raised m s'"
  shows "raised_in_archive E s s'"
    and "tar_file_name s' = tar_file_name s"
    and "zst_file_name s' = zst_file_name s"
proof -
  let ?t = "tar_name E" and ?z = "zst_name E"
  let ?p1 = "print (''Creating tar archive: '' @ ?t) s"
  let ?p2 = "print (''Compressing with Zstandard: '' @ ?z)"
  let ?p3 = "print (''Calculating SHA256 checksum of '' @ ?z)"
  have tz: "bytes_of (f(?t \<mapsto> File b, ?z \<mapsto> File c)) ?t = b" for f b c
    using tar_neq_zst [of E] by (simp add: bytes_of_def)
  from assms consider
    (1) "open_write E OpenTar ?t ?p1 = Raised m s'"
  | (2) a where "open_write E OpenTar ?t ?p1 = Done a" "tar_add E ?t a = Raised m s'"
  | (3) a b where "open_write E OpenTar ?t ?p1 = Done a" "tar_add E ?t a = Done b"
      "open_read E OpenTarIn ?t (?p2 b) = Raised m s'"
  | (4) a b c where "open_write E OpenTar ?t ?p1 = Done a" "tar_add E ?t a = Done b"
      "open_read E OpenTarIn ?t (?p2 b) = Done c" "open_write E OpenZstOut ?z c = Raised m s'"
  | (5) a b c d where "open_write E OpenTar ?t ?p1 = Done a" "tar_add E ?t a = Done b"
      "open_read E OpenTarIn ?t (?p2 b) = Done c" "open_write E OpenZstOut ?z c = Done d"
      "copy_stream E ?t ?z d = Raised m s'"
  | (6) a b c d e where "open_write E OpenTar ?t ?p1 = Done a" "tar_add E ?t a = Done b"
      "open_read E OpenTarIn ?t (?p2 b) = Done c" "open_write E OpenZstOut ?z c = Done d"
      "copy_stream E ?t ?z d = Done e" "open_read E OpenZstIn ?z (?p3 e) = Raised m s'"
  | (7) a b c d e f where "open_write E OpenTar ?t ?p1 = Done a" "tar_add E ?t a = Done b"
      "open_read E OpenTarIn ?t (?p2 b) = Done c" "open_write E OpenZstOut ?z c = Done d"
      "copy_stream E ?t ?z d = Done e" "open_read E OpenZstIn ?z (?p3 e) = Done f"
      "read_and_report E ?z f = Raised m s'"
    unfolding archive_and_hash_def Let_def and_then_Raised and_then_Done
    by (elim disjE exE conjE) blast+
  then have "raised_in_archive E s s' \<and> tar_file_name s' = tar_file_name s
             \<and> zst_file_name s' = zst_file_name s"
  proof cases
    case 1
    note eqs = open_write_Raised [OF 1]
    have "trace s' = trace s @ [OpenTar]" "fs s' = fs s"
      "tar_file_name s' = tar_file_name s" "zst_file_name s' = zst_file_name s"
      by (simp_all add: eqs)
    then show ?thesis
      unfolding raised_in_archive_def by blast
  next
    case 2
    note a = open_write_Done [OF 2(1)]
    from tar_add_Raised [OF 2(2)] obtain x where "fs s' = (fs a)(?t \<mapsto> File x)"
      and s': "trace s' = trace a @ [TarAdd]" "tar_file_name s' = tar_file_name a"
        "zst_file_name s' = zst_file_name a"
      by (auto simp: a)
    then have "trace s' = trace s @ [OpenTar, TarAdd]" "fs s' = (fs s)(?t \<mapsto> File x)"
      "tar_file_name s' = tar_file_name s" "zst_file_name s' = zst_file_name s"
      by (simp_all add: a)
    then show ?thesis
      unfolding raised_in_archive_def by blast
  next
    case 3
    note a = open_write_Done [OF 3(1)]
    from tar_add_Done [OF 3(2)] obtain x where
      b: "b = (enter TarAdd a)\<lparr>fs := (fs a)(?t \<mapsto> File (tar_pack E TEMP_DIR x))\<rparr>"
      by blast
    note eqs = open_read_Raised [OF 3(3)] b a
    have "trace s' = trace s @ [OpenTar, TarAdd, OpenTarIn]"
      "fs s' = (fs s)(?t \<mapsto> File (tar_pack E TEMP_DIR x))"
      "tar_file_name s' = tar_file_name s" "zst_file_name s' = zst_file_name s"
      by (simp_all add: eqs)
    then show ?thesis
      unfolding raised_in_archive_def by blast
  next
    case 4
    note a = open_write_Done [OF 4(1)]
    from tar_add_Done [OF 4(2)] obtain x where
      b: "b = (enter TarAdd a)\<lparr>fs := (fs a)(?t \<mapsto> File (tar_pack E TEMP_DIR x))\<rparr>"
      by blast
    note eqs = open_write_Raised [OF 4(4)] open_read_Done [OF 4(3), THEN conjunct1] b a
    have "trace s' = trace s @ [OpenTar, TarAdd, OpenTarIn, OpenZstOut]"
      "fs s' = (fs s)(?t \<mapsto> File (tar_pack E TEMP_DIR x))"
      "tar_file_name s' = tar_file_name s" "zst_file_name s' = zst_file_name s"
      by (simp_all add: eqs)
    then show ?thesis
      unfolding raised_in_archive_def by blast
  next
    case 5
    note a = open_write_Done [OF 5(1)]
    from tar_add_Done [OF 5(2)] obtain x where
      x: "fs a TEMP_DIR = Some x" and
      b: "b = (enter TarAdd a)\<lparr>fs := (fs a)(?t \<mapsto> File (tar_pack E TEMP_DIR x))\<rparr>"
      by blast
    from copy_stream_Raised [OF 5(5)] obtain n where
      s': "s' = (enter CopyStream d)\<lparr>fs := (fs d)(?z \<mapsto> File (take n (zstd_compress E (bytes_of (fs d) ?t))))\<rparr>"
      by blast
    note eqs = s' open_write_Done [OF 5(4)] open_read_Done [OF 5(3), THEN conjunct1] b a
    have x0: "fs s TEMP_DIR = Some x"
      using x temp_neq_tar [of E] by (simp add: a)
    have "trace s' = trace s @ [OpenTar, TarAdd, OpenTarIn, OpenZstOut, CopyStream]"
      "fs s' = (fs s)(?t \<mapsto> File (tar_pack E TEMP_DIR x),
                      ?z \<mapsto> File (take n (zstd_compress E (tar_pack E TEMP_DIR x))))"
      "tar_file_name s' = tar_file_name s" "zst_file_name s' = zst_file_name s"
      by (simp_all add: eqs tz)
    with x0 show ?thesis
      unfolding raised_in_archive_def by blast
  next
    case 6
    note a = open_write_Done [OF 6(1)]
    from tar_add_Done [OF 6(2)] obtain x where
      x: "fs a TEMP_DIR = Some x" and
      b: "b = (enter TarAdd a)\<lparr>fs := (fs a)(?t \<mapsto> File (tar_pack E TEMP_DIR x))\<rparr>"
      by blast
    note eqs = open_read_Raised [OF 6(6)] copy_stream_Done [OF 6(5)] open_write_Done [OF 6(4)]
      open_read_Done [OF 6(3), THEN conjunct1] b a
    have x0: "fs s TEMP_DIR = Some x"
      using x temp_neq_tar [of E] by (simp add: a)
    have "trace s' = trace s @ [OpenTar, TarAdd, OpenTarIn, OpenZstOut, CopyStream, OpenZstIn]"
      "fs s' = (fs s)(?t \<mapsto> File (tar_pack E TEMP_DIR x),
                      ?z \<mapsto> File (zstd_compress E (tar_pack E TEMP_DIR x)))"
      "tar_file_name s' = tar_file_name s" "zst_file_name s' = zst_file_name s"
      by (simp_all add: eqs tz)
    with x0 show ?thesis
      unfolding raised_in_archive_def by blast
  next
    case 7
    note a = open_write_Done [OF 7(1)]
    from tar_add_Done [OF 7(2)] obtain x where
      x: "fs a TEMP_DIR = Some x" and
      b: "b = (enter TarAdd a)\<lparr>fs := (fs a)(?t \<mapsto> File (tar_pack E TEMP_DIR x))\<rparr>"
      by blast
    note eqs = read_and_report_Raised [OF 7(7)] open_read_Done [OF 7(6), THEN conjunct1]
      copy_stream_Done [OF 7(5)] open_write_Done [OF 7(4)]
      open_read_Done [OF 7(3), THEN conjunct1] b a
    have x0: "fs s TEMP_DIR = Some x"
      using x temp_neq_tar [of E] by (simp add: a)
    have "trace s' = trace s @ [OpenTar, TarAdd, OpenTarIn, OpenZstOut, CopyStream, OpenZstIn, ReadZst]"
      "fs s' = (fs s)(?t \<mapsto> File (tar_pack E TEMP_DIR x),
                      ?z \<mapsto> File (zstd_compress E (tar_pack E TEMP_DIR x)))"
      "tar_file_name s' = tar_file_name s" "zst_file_name s' = zst_file_name s"
      by (simp_all add: eqs tz)
    with x0 show ?thesis
      unfolding raised_in_archive_def by blast
  qed
  then show "raised_in_archive E s s'"
    and "tar_file_name s' = tar_file_name s"
    and "zst_file_name s' = zst_file_name s"
    by simp_all
qed

lemma initial_fields [simp]:
  "fs (initial f) = f" "trace (initial f) = []" "stdout (initial f) = []"
  "tar_file_name (initial f) = None" "zst_file_name (initial f) = None"
  by (simp_all add: initial_def)

lemma bind_names_fields [simp]:
  "fs (bind_names E s) = fs s" "trace (bind_names E s) = trace s"
  "stdout (bind_names E s) = stdout s"
  "tar_file_name (bind_names E s) = Some (tar_name E)"
  "zst_file_name (bind_names E s) = Some (zst_name E)"
  by (simp_all add: bind_names_def)

lemma scratch_tree_upd [simp]: "(f(TEMP_DIR \<mapsto> d)) TEMP_DIR = Some d"
  by simp

lemma try_body_Done:
  assumes "try_body E (initial fs0) = Done s"
  shows "fs s = fs0(TEMP_DIR \<mapsto> scratch_tree fs0,
                    tar_name E \<mapsto> File (tar_pack E TEMP_DIR (scratch_tree fs0)),
                    zst_name E \<mapsto> File (zstd_compress E (tar_pack E TEMP_DIR (scratch_tree fs0))))"
    and "trace s = happy_path"
    and "stdout s =
           [''Creating temporary directory: '' @ TEMP_DIR,
            ''Created dummy file: '' @ dummy_file_path,
            ''Creating tar archive: '' @ tar_name E,
            ''Compressing with Zstandard: '' @ zst_name E,
            ''Calculating SHA256 checksum of '' @ zst_name E]
           @ results_block E (zstd_compress E (tar_pack E TEMP_DIR (scratch_tree fs0)))"
    and "tar_file_name s = Some (tar_name E)"
    and "zst_file_name s = Some (zst_name E)"
proof -
  from assms obtain a where
    a: "create_scratch E (initial fs0) = Done a" and
    s: "archive_and_hash E (bind_names E a) = Done s"
    by (auto simp: try_body_def and_then_Done)
  note ca = create_scratch_Done [OF a]
  note ah = archive_and_hash_Done [OF s]
  from ah(1) obtain d where
    d: "fs a TEMP_DIR = Some d" and
    fs_s: "fs s = (fs a)(tar_name E \<mapsto> File (tar_pack E TEMP_DIR d),
                       zst_name E \<mapsto> File (zstd_compress E (tar_pack E TEMP_DIR d)))" and
    out_s: "stdout s = stdout a @
             [''Creating tar archive: '' @ tar_name E,
              ''Compressing with Zstandard: '' @ zst_name E,
              ''Calculating SHA256 checksum of '' @ zst_name E]
             @ results_block E (zstd_compress E (tar_pack E TEMP_DIR d))"
    by auto
  have d': "d = scratch_tree fs0"
    using d by (simp add: ca(1))
  show "fs s = fs0(TEMP_DIR \<mapsto> scratch_tree fs0,
                    tar_name E \<mapsto> File (tar_pack E TEMP_DIR (scratch_tree fs0)),
                    zst_name E \<mapsto> File (zstd_compress E (tar_pack E TEMP_DIR (scratch_tree fs0))))"
    by (simp add: fs_s d' ca(1))
  show "trace s = happy_path"
    by (simp add: ah(2) ca(2) happy_path_def)
  show "stdout s =
           [''Creating temporary directory: '' @ TEMP_DIR,
            ''Created dummy file: '' @ dummy_file_path,
            ''Creating tar archive: '' @ tar_name E,
            ''Compressing with Zstandard: '' @ zst_name E,
            ''Calculating SHA256 checksum of '' @ zst_name E]
           @ results_block E (zstd_compress E (tar_pack E TEMP_DIR (scratch_tree fs0)))"
    by (simp add: out_s d' ca(3))
  show "tar_file_name s = Some (tar_name E)"
    by (simp add: ah(3))
  show "zst_file_name s = Some (zst_name E)"
    by (simp add: ah(4))
qed

text \<open>The two ways the \<^verbatim>\<open>try\<close> body can raise: before or after lines 31-32.\<close>

lemma try_body_Raised:
  assumes "try_body E (initial fs0) = Raised m s'"
  obtains
    (early) "create_scratch E (initial fs0) = Raised m s'"
  | (late) a where "create_scratch E (initial fs0) = Done a"
      "archive_and_hash E (bind_names E a) = Raised m s'"
  using assms by (auto simp: try_body_def and_then_Raised)

lemma successful_Done: "successful E fs0 \<Longrightarrow> \<exists>s. try_body E (initial fs0) = Done s"
  by (cases "try_body E (initial fs0)") (simp_all add: successful_def)

lemma unsuccessful_Raised: "\<not> successful E fs0 \<Longrightarrow> \<exists>m s. try_body E (initial fs0) = Raised m s"
  by (cases "try_body E (initial fs0)") (simp_all add: successful_def)


subsection \<open>Cleanup\<close>

lemma rm_scratch_fields [simp]:
  "stdout (rm_scratch E s) = stdout s"
  "tar_file_name (rm_scratch E s) = tar_file_name s"
  "zst_file_name (rm_scratch E s) = zst_file_name s"
  by (auto simp: rm_scratch_def Let_def split: option.splits)

lemma rm_scratch_frame: "p \<noteq> TEMP_DIR \<Longrightarrow> fs (rm_scratch E s) p = fs s p"
  by (auto simp: rm_scratch_def Let_def split: option.splits)

lemma rm_scratch_gone: "fault E RmScratch = None \<Longrightarrow> fs (rm_scratch E s) TEMP_DIR = None"
  by (auto simp: rm_scratch_def Let_def split: option.splits)

lemma rm_scratch_trace:
  "trace (rm_scratch E s) = (if fs s TEMP_DIR = None then trace s else trace s @ [RmScratch])"
  by (auto simp: rm_scratch_def Let_def split: option.splits)

lemma remove_tar_unbound:
  "tar_file_name s = None \<Longrightarrow> remove_tar E s = (Uncaught (name_error ''tar_file_name''), s)"
  by (simp add: remove_tar_def)

lemma remove_tar_file:
  "tar_file_name s = Some t \<Longrightarrow> fs s t = Some (File b) \<Longrightarrow> fault E RemoveTar = None \<Longrightarrow>
     remove_tar E s = (Exit_normally, (enter RemoveTar s)\<lparr>fs := (fs s)(t := None)\<rparr>)"
  by (simp add: remove_tar_def)

lemma remove_tar_trace:
  "tar_file_name s = Some t \<Longrightarrow> fs s t \<noteq> None \<Longrightarrow>
     trace (snd (remove_tar E s)) = trace s @ [RemoveTar]"
  by (auto simp: remove_tar_def Let_def split: option.splits node.splits)

lemma remove_tar_frame:
  "tar_file_name s \<noteq> Some p \<Longrightarrow> fs (snd (remove_tar E s)) p = fs s p"
  by (auto simp: remove_tar_def Let_def split: option.splits node.splits)

lemma remove_tar_None: "fs s p = None \<Longrightarrow> fs (snd (remove_tar E s)) p = None"
  by (auto simp: remove_tar_def Let_def split: option.splits node.splits)

lemma remove_tar_stdout [simp]: "stdout (snd (remove_tar E s)) = stdout s"
  by (auto simp: remove_tar_def Let_def split: option.splits node.splits)

lemma remove_tar_trace_steps:
  "trace (snd (remove_tar E s)) = trace s \<or> trace (snd (remove_tar E s)) = trace s @ [RemoveTar]"
  by (auto simp: remove_tar_def Let_def split: option.splits node.splits)

lemma cleanup_scratch_gone:
  "fault E RmScratch = None \<Longrightarrow> fs (snd (cleanup E s)) TEMP_DIR = None"
  by (simp add: cleanup_def remove_tar_None rm_scratch_gone)

lemma cleanup_frame:
  "p \<noteq> TEMP_DIR \<Longrightarrow> tar_file_name s \<noteq> Some p \<Longrightarrow> fs (snd (cleanup E s)) p = fs s p"
  by (simp add: cleanup_def remove_tar_frame rm_scratch_frame)

lemma cleanup_unbound:
  "tar_file_name s = None \<Longrightarrow> fst (cleanup E s) = Uncaught (name_error ''tar_file_name'')"
  by (simp add: cleanup_def remove_tar_unbound)

lemma cleanup_removes_tar:
  assumes "tar_file_name s = Some t" "t \<noteq> TEMP_DIR" "fs s t = Some (File b)"
    and "fault E RemoveTar = None"
  shows "fst (cleanup E s) = Exit_normally" and "fs (snd (cleanup E s)) t = None"
  using assms
  by (simp_all add: cleanup_def remove_tar_file [where b = b] rm_scratch_frame)

lemma cleanup_trace_bound:
  assumes "tar_file_name s = Some t" "t \<noteq> TEMP_DIR" "fs s t \<noteq> None"
  shows "trace (snd (cleanup E s)) =
           (if fs s TEMP_DIR = None then trace s else trace s @ [RmScratch]) @ [RemoveTar]"
  using assms
  by (simp add: cleanup_def remove_tar_trace [where t = t] rm_scratch_frame rm_scratch_trace)

lemma cleanup_stdout:
  "stdout (snd (cleanup E s)) = stdout s @ [[CHR 0x0A] @ ''Cleaning up temporary directory: '' @ TEMP_DIR]"
  by (simp add: cleanup_def)

lemma cleanup_trace_steps:
  "\<exists>ks. trace (snd (cleanup E s)) = trace s @ ks \<and> set ks \<subseteq> {RmScratch, RemoveTar}"
  using remove_tar_trace_steps
    [of E "rm_scratch E (print ([CHR 0x0A] @ ''Cleaning up temporary directory: '' @ TEMP_DIR) s)"]
  by (auto simp: cleanup_def rm_scratch_trace)


subsection \<open>Version string\<close>

lemma fields_valid: "valid_datetime (fields_of t)"
  using fields_of [of t] by simp

lemma digit_char_is_digit: "is_digit (digit_char n)"
proof -
  have "n mod 10 < length ''0123456789''" by simp
  then have "''0123456789'' ! (n mod 10) \<in> set ''0123456789''"
    by (rule nth_mem)
  then show ?thesis
    by (simp only: is_digit_def digit_char_def)
qed

declare dec.simps [simp del]

lemma dec_digits: "list_all is_digit (dec n)"
proof (induction n rule: dec.induct)
  case (1 n)
  show ?case
  proof (cases "n < 10")
    case True
    then show ?thesis
      by (subst dec.simps) (simp add: digit_char_is_digit)
  next
    case False
    with 1 show ?thesis
      by (subst dec.simps) (simp add: digit_char_is_digit)
  qed
qed

lemma dec_length_1: "n < 10 \<Longrightarrow> length (dec n) = 1"
  by (subst dec.simps) simp

lemma dec_length_2:
  assumes "10 \<le> n" "n < 100"
  shows "length (dec n) = 2"
proof -
  from assms have "n div 10 < 10" by presburger
  with assms show ?thesis
    by (subst dec.simps) (simp add: dec_length_1)
qed

lemma dec_length_3:
  assumes "100 \<le> n" "n < 1000"
  shows "length (dec n) = 3"
proof -
  from assms have "10 \<le> n div 10" "n div 10 < 100" by presburger+
  with assms show ?thesis
    by (subst dec.simps) (simp add: dec_length_2)
qed

lemma dec_length_4:
  assumes "1000 \<le> n" "n < 10000"
  shows "length (dec n) = 4"
proof -
  from assms have "100 \<le> n div 10" "n div 10 < 1000" by presburger+
  with assms show ?thesis
    by (subst dec.simps) (simp add: dec_length_3)
qed

lemma pad2_length: "n < 100 \<Longrightarrow> length (pad2 n) = 2"
  by (cases "n < 10") (simp_all add: pad2_def dec_length_1 dec_length_2)

lemma pad2_digits: "list_all is_digit (pad2 n)"
  by (simp add: pad2_def dec_digits is_digit_def)

lemma strftime_length: "length (strftime t) = 14"
  using fields_valid [of t]
  by (simp add: strftime.rep_eq valid_datetime_def dec_length_4 pad2_length)

lemma strftime_digits: "list_all is_digit (strftime t)"
  by (simp add: strftime.rep_eq dec_digits pad2_digits)

text \<open>The digits read back give the number that was printed.\<close>

lemma small_cases:
  fixes k :: nat
  assumes "k < 10"
  shows "k = 0 \<or> k = 1 \<or> k = 2 \<or> k = 3 \<or> k = 4 \<or> k = 5 \<or> k = 6 \<or> k = 7 \<or> k = 8 \<or> k = 9"
  using assms by arith

lemma digit_value_nth: "k < 10 \<Longrightarrow> digit_value (''0123456789'' ! k) = k"
  using small_cases [of k] by (auto simp: digit_value_def)

lemma digit_value_digit_char: "digit_value (digit_char n) = n mod 10"
  by (simp add: digit_char_def digit_value_nth)

lemma read_nat_snoc: "read_nat (xs @ [c]) = 10 * read_nat xs + digit_value c"
  by (simp add: read_nat_def)

lemma read_nat_single: "read_nat [c] = digit_value c"
  by (simp add: read_nat_def)

lemma read_nat_dec: "read_nat (dec n) = n"
proof (induction n rule: dec.induct)
  case (1 n)
  show ?case
  proof (cases "n < 10")
    case True
    then show ?thesis
      by (subst dec.simps) (simp add: read_nat_single digit_value_digit_char)
  next
    case False
    with 1 show ?thesis
      by (subst dec.simps) (simp add: read_nat_snoc digit_value_digit_char)
  qed
qed

lemma read_nat_zero: "read_nat (CHR ''0'' # xs) = read_nat xs"
  by (simp add: read_nat_def digit_value_def)

lemma read_nat_pad2: "read_nat (pad2 n) = n"
  by (simp add: pad2_def read_nat_zero read_nat_dec)

lemma strftime_fields:
  "read_nat (take 4 (strftime t)) = year (fields_of t)"
  "read_nat (take 2 (drop 4 (strftime t))) = month (fields_of t)"
  "read_nat (take 2 (drop 6 (strftime t))) = day (fields_of t)"
  "read_nat (take 2 (drop 8 (strftime t))) = hour (fields_of t)"
  "read_nat (take 2 (drop 10 (strftime t))) = minute (fields_of t)"
  "read_nat (take 2 (drop 12 (strftime t))) = second (fields_of t)"
  using fields_valid [of t]
  by (simp_all add: strftime.rep_eq valid_datetime_def dec_length_4 pad2_length
        read_nat_dec read_nat_pad2)

lemma zst_name_pattern: "matches_output_pattern (zst_name E)"
proof -
  let ?v = "strftime (now E)"
  have len: "length ?v = 14"
    by (rule strftime_length)
  have name: "zst_name E = ''nginx-'' @ ?v @ ''.tar.zst''"
    by (simp add: zst_name_def tar_name_def PACKAGE_NAME_def PACKAGE_VERSION_def)
  show ?thesis
    unfolding matches_output_pattern_def name
    using len strftime_digits [of "now E"] by simp
qed

subsection \<open>Runs\<close>


lemma successful_run:
  assumes "successful E fs0"
  shows "fs (snd (run E fs0)) (zst_name E)
           = Some (File (zstd_compress E (tar_pack E TEMP_DIR (scratch_tree fs0))))"
    and "stdout (snd (run E fs0)) =
           [''Creating temporary directory: '' @ TEMP_DIR,
            ''Created dummy file: '' @ dummy_file_path,
            ''Creating tar archive: '' @ tar_name E,
            ''Compressing with Zstandard: '' @ zst_name E,
            ''Calculating SHA256 checksum of '' @ zst_name E]
           @ results_block E (zstd_compress E (tar_pack E TEMP_DIR (scratch_tree fs0)))
           @ [[CHR 0x0A] @ ''Cleaning up temporary directory: '' @ TEMP_DIR]"
    and "trace (snd (run E fs0)) = happy_path @ [RmScratch, RemoveTar]"
    and "fault E RmScratch = None \<Longrightarrow> fs (snd (run E fs0)) TEMP_DIR = None"
    and "fault E RemoveTar = None \<Longrightarrow> fs (snd (run E fs0)) (tar_name E) = None"
    and "fault E RemoveTar = None \<Longrightarrow> fst (run E fs0) = Exit_normally"
proof -
  from successful_Done [OF assms] obtain s where s: "try_body E (initial fs0) = Done s"
    by blast
  note tb = try_body_Done [OF s]
  have run: "run E fs0 = cleanup E s"
    by (simp add: run_def s)
  have tar: "fs s (tar_name E) = Some (File (tar_pack E TEMP_DIR (scratch_tree fs0)))"
    using tar_neq_zst [of E] by (simp add: tb(1))
  have tmp: "fs s TEMP_DIR \<noteq> None"
    using temp_neq_tar [of E] temp_neq_zst [of E] by (simp add: tb(1))
  have "tar_file_name s \<noteq> Some (zst_name E)"
    using tar_neq_zst [of E] by (simp add: tb(4))
  then show "fs (snd (run E fs0)) (zst_name E)
           = Some (File (zstd_compress E (tar_pack E TEMP_DIR (scratch_tree fs0))))"
    using temp_neq_zst [of E] by (simp add: run cleanup_frame tb(1))
  show "stdout (snd (run E fs0)) =
           [''Creating temporary directory: '' @ TEMP_DIR,
            ''Created dummy file: '' @ dummy_file_path,
            ''Creating tar archive: '' @ tar_name E,
            ''Compressing with Zstandard: '' @ zst_name E,
            ''Calculating SHA256 checksum of '' @ zst_name E]
           @ results_block E (zstd_compress E (tar_pack E TEMP_DIR (scratch_tree fs0)))
           @ [[CHR 0x0A] @ ''Cleaning up temporary directory: '' @ TEMP_DIR]"
    unfolding run cleanup_stdout tb(3) by simp
  have "fs s (tar_name E) \<noteq> None"
    by (simp add: tar)
  from cleanup_trace_bound [OF tb(4) temp_neq_tar [symmetric] this]
  show "trace (snd (run E fs0)) = happy_path @ [RmScratch, RemoveTar]"
    using tmp by (simp add: run tb(2))
  show "fault E RmScratch = None \<Longrightarrow> fs (snd (run E fs0)) TEMP_DIR = None"
    by (simp add: run cleanup_scratch_gone)
  show "fault E RemoveTar = None \<Longrightarrow> fs (snd (run E fs0)) (tar_name E) = None"
    using cleanup_removes_tar(2) [OF tb(4) temp_neq_tar [symmetric] tar] by (simp add: run)
  show "fault E RemoveTar = None \<Longrightarrow> fst (run E fs0) = Exit_normally"
    using cleanup_removes_tar(1) [OF tb(4) temp_neq_tar [symmetric] tar] by (simp add: run)
qed

lemma successful_run_output_file:
  assumes "successful E fs0"
  shows "fs (snd (run E fs0)) (zst_name E)
           = Some (File (zstd_compress E (tar_pack E TEMP_DIR (scratch_tree fs0))))"
    and "bytes_of (fs (snd (run E fs0))) (zst_name E)
           = zstd_compress E (tar_pack E TEMP_DIR (scratch_tree fs0))"
  by (simp_all add: successful_run(1) [OF assms] bytes_of_def)

subsection \<open>Runs in which the \<^verbatim>\<open>try\<close> body raises\<close>

lemma try_state_Raised: "try_body E (initial fs0) = Raised m s' \<Longrightarrow> try_state E fs0 = s'"
  by (simp add: try_state_def)

lemma try_state_Done: "try_body E (initial fs0) = Done s' \<Longrightarrow> try_state E fs0 = s'"
  by (simp add: try_state_def)


lemma failed_try_facts:
  assumes "try_body E (initial fs0) = Raised m s'"
  shows "(tar_file_name s' = None \<and>
          (trace s' = [MakeDirs] \<or> trace s' = [MakeDirs, OpenDummy]
           \<or> trace s' = [MakeDirs, OpenDummy, WriteDummy]) \<and>
          fs s' (tar_name E) = fs0 (tar_name E) \<and> fs s' (zst_name E) = fs0 (zst_name E))
       \<or> (tar_file_name s' = Some (tar_name E) \<and>
           (\<exists>a. trace a = [MakeDirs, OpenDummy, WriteDummy] \<and>
                fs a = fs0(TEMP_DIR \<mapsto> scratch_tree fs0) \<and> raised_in_archive E a s'))"
  using assms
proof (cases rule: try_body_Raised)
  case early
  note cr = create_scratch_Raised [OF early]
  have "fs s' (tar_name E) = fs0 (tar_name E)" "fs s' (zst_name E) = fs0 (zst_name E)"
    using cr(2) [of "tar_name E"] cr(2) [of "zst_name E"] temp_neq_tar [of E] temp_neq_zst [of E]
    by auto
  with cr(1,3) show ?thesis
    by simp
next
  case (late a)
  note cd = create_scratch_Done [OF late(1)]
  note ar = archive_and_hash_Raised [OF late(2)]
  have "trace (bind_names E a) = [MakeDirs, OpenDummy, WriteDummy] \<and>
    fs (bind_names E a) = fs0(TEMP_DIR \<mapsto> scratch_tree fs0)"
    by (simp add: cd)
  moreover have "tar_file_name s' = Some (tar_name E)"
    by (simp add: ar(2))
  ultimately show ?thesis
    using ar(1) by blast
qed

lemma handler_fields:
  "fs (handler r) = fs (state_of r)" "trace (handler r) = trace (state_of r)"
  "tar_file_name (handler r) = tar_file_name (state_of r)"
  by (cases r; simp)+

lemma try_state_tar_file_name:
  "tar_file_name (try_state E fs0) = None \<or> tar_file_name (try_state E fs0) = Some (tar_name E)"
proof (cases "try_body E (initial fs0)")
  case (Done s)
  with try_body_Done(4) [OF Done] show ?thesis
    by (simp add: try_state_def)
next
  case (Raised m s)
  with failed_try_facts [OF Raised] show ?thesis
    by (auto simp: try_state_def)
qed

text \<open>The cleanup leaves the output file as the \<^verbatim>\<open>try\<close> body left it.\<close>

lemma run_keeps_output_file:
  "fs (snd (run E fs0)) (zst_name E) = fs (try_state E fs0) (zst_name E)"
proof -
  have "tar_file_name (handler (try_body E (initial fs0))) \<noteq> Some (zst_name E)"
    using try_state_tar_file_name [of E fs0] tar_neq_zst [of E]
    by (auto simp: handler_fields try_state_def)
  then show ?thesis
    using temp_neq_zst [of E]
    by (simp add: run_def cleanup_frame handler_fields try_state_def)
qed



lemma run_trace:
  "\<exists>ks. trace (snd (run E fs0)) = trace (try_state E fs0) @ ks \<and> set ks \<subseteq> {RmScratch, RemoveTar}"
  using cleanup_trace_steps [of E "handler (try_body E (initial fs0))"]
  by (simp add: run_def handler_fields try_state_def)










lemma successful_trace: "successful E fs0 \<Longrightarrow> trace (try_state E fs0) = happy_path"
  using successful_Done [of E fs0] try_body_Done(2) [of E fs0] by (auto simp: try_state_def)

lemma successful_try_output:
  "successful E fs0 \<Longrightarrow>
     fs (try_state E fs0) (zst_name E)
       = Some (File (zstd_compress E (tar_pack E TEMP_DIR (scratch_tree fs0))))"
  using successful_Done [of E fs0] try_body_Done(1) [of E fs0] by (auto simp: try_state_def)

lemma makedirs_existing:
  "fs s TEMP_DIR = Some (Dir es) \<Longrightarrow> makedirs E s = Done (enter MakeDirs s)"
  by (simp add: makedirs_def Let_def)

lemma existing_scratch_try_trace:
  assumes "fs0 TEMP_DIR = Some (Dir es)"
  shows "take 2 (trace (try_state E fs0)) = [MakeDirs, OpenDummy]"
proof (cases "try_body E (initial fs0)")
  case (Done s)
  with try_body_Done(2) [OF Done] show ?thesis
    by (simp add: try_state_def happy_path_def)
next
  case (Raised m s')
  define s0 where "s0 = print (''Creating temporary directory: '' @ TEMP_DIR) (initial fs0)"
  have s0: "fs s0 TEMP_DIR = Some (Dir es)" "trace s0 = []"
    using assms by (simp_all add: s0_def)
  have mk: "makedirs E s0 = Done (enter MakeDirs s0)"
    using s0(1) by (rule makedirs_existing)
  from Raised show ?thesis
  proof (cases rule: try_body_Raised)
    case early
    then have "and_then (and_then (open_dummy E (enter MakeDirs s0)) (write_dummy E))
                 (\<lambda>s. Done (print (''Created dummy file: '' @ dummy_file_path) s)) = Raised m s'"
      by (simp only: create_scratch_def s0_def [symmetric] mk and_then.simps)
    then consider
      "open_dummy E (enter MakeDirs s0) = Raised m s'"
    | b where "open_dummy E (enter MakeDirs s0) = Done b" "write_dummy E b = Raised m s'"
      unfolding and_then_Raised and_then_Done by blast
    then have "trace s' = [MakeDirs, OpenDummy] \<or> trace s' = [MakeDirs, OpenDummy, WriteDummy]"
    proof cases
      case 1
      from open_dummy_Raised [OF 1] s0(2) show ?thesis by simp
    next
      case 2
      from open_dummy_Done [OF 2(1)] write_dummy_Raised [OF 2(2)] s0(2) show ?thesis by auto
    qed
    then show ?thesis
      by (auto simp: try_state_Raised [OF Raised])
  next
    case (late a)
    from failed_try_facts [OF Raised] create_scratch_Done(4) [OF late(1)]
      archive_and_hash_Raised(2) [OF late(2)]
    show ?thesis
      unfolding try_state_Raised [OF Raised] raised_in_archive_def by auto
  qed
qed

lemma scratch_tree_Dir:
  "f TEMP_DIR = Some (Dir es) \<Longrightarrow>
     scratch_tree f = Dir (dir_put DUMMY_FILE_NAME (File dummy_content) es)"
  by (simp add: scratch_tree_def scratch_entries_def)

lemma scratch_tree_fresh: "scratch_fresh f \<Longrightarrow> scratch_tree f = placeholder_tree"
  by (auto simp: scratch_fresh_def scratch_tree_def scratch_entries_def placeholder_tree_def
        dir_put_def filter_empty_conv list_all_iff split: option.splits node.splits)

lemma open_dummy_existing:
  "fault E OpenDummy = None \<Longrightarrow> fs s TEMP_DIR = Some (Dir es) \<Longrightarrow> \<not> readme_is_dir es \<Longrightarrow>
     open_dummy E s = Done ((enter OpenDummy s)\<lparr>fs := put_dummy [] (fs s)\<rparr>)"
  by (auto simp: open_dummy_def readme_is_dir_def Let_def split: option.splits node.splits)

lemma write_dummy_no_fault:
  "fault E WriteDummy = None \<Longrightarrow>
     write_dummy E s = Done ((enter WriteDummy s)\<lparr>fs := put_dummy dummy_content (fs s)\<rparr>)"
  by (simp add: write_dummy_def Let_def)

lemma create_scratch_existing:
  assumes "fs s TEMP_DIR = Some (Dir es)" and "fault E OpenDummy = None"
    and "fault E WriteDummy = None" and "\<not> readme_is_dir es"
  shows "completed (create_scratch E s)"
    and "fs (state_of (create_scratch E s)) TEMP_DIR
           = Some (Dir (dir_put DUMMY_FILE_NAME (File dummy_content) es))"
proof -
  define s0 where "s0 = print (''Creating temporary directory: '' @ TEMP_DIR) s"
  have s0: "fs (enter MakeDirs s0) TEMP_DIR = Some (Dir es)"
    using assms(1) by (simp add: s0_def)
  have "fs s0 TEMP_DIR = Some (Dir es)"
    using assms(1) by (simp add: s0_def)
  then have mk: "makedirs E s0 = Done (enter MakeDirs s0)"
    by (rule makedirs_existing)
  note od = open_dummy_existing [OF assms(2) s0 assms(4)]
  note wd = write_dummy_no_fault [OF assms(3)]
  have "\<exists>s'. create_scratch E s = Done s'"
    by (simp only: create_scratch_def s0_def [symmetric] mk od wd and_then.simps) blast
  then obtain s' where d: "create_scratch E s = Done s'"
    by blast
  show "completed (create_scratch E s)"
    by (simp add: d)
  from create_scratch_Done(1) [OF d] scratch_tree_Dir [of "fs s" es, OF assms(1)]
  show "fs (state_of (create_scratch E s)) TEMP_DIR
           = Some (Dir (dir_put DUMMY_FILE_NAME (File dummy_content) es))"
    by (simp add: d)
qed

lemma existing_scratch_write_started:
  assumes "fs0 TEMP_DIR = Some (Dir es)" and "fault E OpenDummy = None" and "\<not> readme_is_dir es"
  shows "take 3 (trace (try_state E fs0)) = [MakeDirs, OpenDummy, WriteDummy]"
proof (cases "try_body E (initial fs0)")
  case (Done s)
  with try_body_Done(2) [OF Done] show ?thesis
    by (simp add: try_state_def happy_path_def)
next
  case (Raised m s')
  define s0 where "s0 = print (''Creating temporary directory: '' @ TEMP_DIR) (initial fs0)"
  have s0: "fs s0 TEMP_DIR = Some (Dir es)" "trace s0 = []"
    "fs (enter MakeDirs s0) TEMP_DIR = Some (Dir es)"
    using assms(1) by (simp_all add: s0_def)
  have mk: "makedirs E s0 = Done (enter MakeDirs s0)"
    using s0(1) by (rule makedirs_existing)
  note od = open_dummy_existing [OF assms(2) s0(3) assms(3)]
  from Raised show ?thesis
  proof (cases rule: try_body_Raised)
    case early
    then have "and_then (write_dummy E ((enter OpenDummy (enter MakeDirs s0))
                   \<lparr>fs := put_dummy [] (fs (enter MakeDirs s0))\<rparr>))
                 (\<lambda>s. Done (print (''Created dummy file: '' @ dummy_file_path) s)) = Raised m s'"
      by (simp only: create_scratch_def s0_def [symmetric] mk od and_then.simps)
    then have "write_dummy E ((enter OpenDummy (enter MakeDirs s0))
                   \<lparr>fs := put_dummy [] (fs (enter MakeDirs s0))\<rparr>) = Raised m s'"
      unfolding and_then_Raised by blast
    from write_dummy_Raised [OF this] s0(2) have "trace s' = [MakeDirs, OpenDummy, WriteDummy]"
      by auto
    then show ?thesis
      by (simp add: try_state_Raised [OF Raised])
  next
    case (late a)
    from failed_try_facts [OF Raised] create_scratch_Done(4) [OF late(1)]
      archive_and_hash_Raised(2) [OF late(2)]
    show ?thesis
      unfolding try_state_Raised [OF Raised] raised_in_archive_def by auto
  qed
qed

section \<open>Failures before the file names are bound\<close>

text \<open>
  C1. In a read-only working directory the scratch directory cannot be created: line 21
  raises, the handler prints the message, and the cleanup reads \<^verbatim>\<open>tar_file_name\<close>,
  which line 31 never bound. The run ends with an uncaught \<^verbatim>\<open>NameError\<close>, where the
  specification wants a cleanup that raises nothing for paths that were never created.
\<close>

theorem read_only_run_ends_in_name_error:
  "fst (run read_only empty_dir)
     = Uncaught (name_error ''tar_file_name'') \<and>
   stdout (snd (run read_only empty_dir))
     = [''Creating temporary directory: temp_nginx'',
        ''An error occurred: '' @ permission_denied TEMP_DIR,
        [CHR 0x0A] @ ''Cleaning up temporary directory: temp_nginx''] \<and>
   trace (snd (run read_only empty_dir))
     = [MakeDirs]"
  by code_simp

text \<open>
  C4. The cleanup is to attempt the removal of the intermediate tar file in every run. When
  the placeholder cannot be opened, the cleanup removes the scratch directory and then
  raises \<^verbatim>\<open>NameError\<close> on \<^verbatim>\<open>tar_file_name\<close>: line 69 is never reached, and a tar
  file of that name left in the working directory stays there.
\<close>

theorem early_failure_skips_tar_removal:
  "fst (run placeholder_unwritable with_stale_tar) = Uncaught (name_error ''tar_file_name'') \<and>
   trace (snd (run placeholder_unwritable with_stale_tar)) = [MakeDirs, OpenDummy, RmScratch] \<and>
   tar_name placeholder_unwritable = ''nginx-20261103173205.tar'' \<and>
   fs (snd (run placeholder_unwritable with_stale_tar)) (tar_name placeholder_unwritable)
     = Some (File ''stale'')"
  by code_simp

text \<open>
  C5. An exception in step 1 is caught and its message printed, but the process does not
  then terminate normally: with the disk full while the placeholder is written, the run
  ends with the uncaught \<^verbatim>\<open>NameError\<close> of the cleanup.
\<close>

theorem disk_full_run_does_not_end_normally:
  "fst (run writing_fails empty_dir) = Uncaught (name_error ''tar_file_name'') \<and>
   stdout (snd (run writing_fails empty_dir))
     = [''Creating temporary directory: temp_nginx'',
        ''An error occurred: [Errno 28] No space left on device'',
        [CHR 0x0A] @ ''Cleaning up temporary directory: temp_nginx''] \<and>
   trace (snd (run writing_fails empty_dir)) = [MakeDirs, OpenDummy, WriteDummy, RmScratch]"
  by code_simp

section \<open>Successful runs\<close>

lemma demo_run_successful: "successful (demo_env no_fault) empty_dir"
  by code_simp

text \<open>
  C2. After a successful run the output file is a regular file; its bytes are the complete
  output of the compressor on the complete archive; the checksum line of the results block
  is the digest of exactly these bytes; and the calls ran in the order of the source, so
  the output file was read for hashing (\<open>OpenZstIn\<close>, \<open>ReadZst\<close>) only after
  \<open>CopyStream\<close> had written and closed it.
\<close>

theorem checksum_is_digest_of_retained_file:
  assumes "successful E fs0"
  shows "fs (snd (run E fs0)) (zst_name E)
           = Some (File (bytes_of (fs (snd (run E fs0))) (zst_name E))) \<and>
         bytes_of (fs (snd (run E fs0))) (zst_name E)
           = zstd_compress E (tar_pack E TEMP_DIR (scratch_tree fs0)) \<and>
         stdout (snd (run E fs0)) =
           [''Creating temporary directory: '' @ TEMP_DIR,
            ''Created dummy file: '' @ dummy_file_path,
            ''Creating tar archive: '' @ tar_name E,
            ''Compressing with Zstandard: '' @ zst_name E,
            ''Calculating SHA256 checksum of '' @ zst_name E,
            [CHR 0x0A] @ ''--- Results for your packages.json file ---'',
            ''File created: '' @ zst_name E,
            ''Checksum: '' @ sha256_hex E (bytes_of (fs (snd (run E fs0))) (zst_name E)),
            [CHR 0x0A] @ ''You can now use this checksum to update your packages.json file.'',
            [CHR 0x0A] @ ''Cleaning up temporary directory: '' @ TEMP_DIR] \<and>
         trace (snd (run E fs0)) =
           [MakeDirs, OpenDummy, WriteDummy, OpenTar, TarAdd, OpenTarIn, OpenZstOut, CopyStream,
            OpenZstIn, ReadZst, Report, RmScratch, RemoveTar]"
  using successful_run(1,2,3) [OF assms] successful_run_output_file [OF assms]
  by (simp add: results_block_def happy_path_def)

theorem checksum_is_digest_of_retained_file_witness:
  "successful (demo_env no_fault) empty_dir \<and>
   fs (snd (run (demo_env no_fault) empty_dir)) (zst_name (demo_env no_fault))
     = Some (File (bytes_of (fs (snd (run (demo_env no_fault) empty_dir))) (zst_name (demo_env no_fault)))) \<and>
   stdout (snd (run (demo_env no_fault) empty_dir)) ! 7
     = ''Checksum: '' @ sha256_hex (demo_env no_fault)
         (bytes_of (fs (snd (run (demo_env no_fault) empty_dir))) (zst_name (demo_env no_fault)))"
proof -
  have h: "successful (demo_env no_fault) empty_dir"
    by (rule demo_run_successful)
  from checksum_is_digest_of_retained_file [OF h] h show ?thesis
    by simp
qed

lemma new_year_run_successful: "successful new_year_env empty_dir"
  by code_simp

text \<open>
  C6. After a successful run the name of the output file is \<^verbatim>\<open>nginx-\<close>, fourteen
  digits and \<^verbatim>\<open>.tar.zst\<close>. The digits are the clock reading taken at the start: read as
  decimal numbers, the first four are its year and the following pairs its month, day,
  hour, minute and second. The file is in the working directory after the run, however
  the cleanup ends.
\<close>

theorem output_file_name_and_existence:
  assumes "successful E fs0"
  shows "matches_output_pattern (zst_name E) \<and>
         zst_name E = ''nginx-'' @ strftime (now E) @ ''.tar.zst'' \<and>
         length (strftime (now E)) = 14 \<and>
         list_all is_digit (strftime (now E)) \<and>
         read_nat (take 4 (strftime (now E))) = year (fields_of (now E)) \<and>
         read_nat (take 2 (drop 4 (strftime (now E)))) = month (fields_of (now E)) \<and>
         read_nat (take 2 (drop 6 (strftime (now E)))) = day (fields_of (now E)) \<and>
         read_nat (take 2 (drop 8 (strftime (now E)))) = hour (fields_of (now E)) \<and>
         read_nat (take 2 (drop 10 (strftime (now E)))) = minute (fields_of (now E)) \<and>
         read_nat (take 2 (drop 12 (strftime (now E)))) = second (fields_of (now E)) \<and>
         (\<exists>b. fs (snd (run E fs0)) (zst_name E) = Some (File b))"
  using zst_name_pattern [of E] strftime_length [of "now E"] strftime_digits [of "now E"]
    strftime_fields [of "now E"] successful_run_output_file(1) [OF assms]
  by (simp add: zst_name_def tar_name_def PACKAGE_NAME_def PACKAGE_VERSION_def)

theorem output_file_name_and_existence_witness:
  "successful new_year_env empty_dir \<and>
   zst_name new_year_env = ''nginx-20270101000009.tar.zst'' \<and>
   matches_output_pattern (zst_name new_year_env) \<and>
   read_nat (take 4 (strftime (now new_year_env))) = 2027 \<and>
   read_nat (take 2 (drop 4 (strftime (now new_year_env)))) = 1 \<and>
   read_nat (take 2 (drop 12 (strftime (now new_year_env)))) = 9 \<and>
   (\<exists>b. fs (snd (run new_year_env empty_dir)) (zst_name new_year_env) = Some (File b))"
proof -
  have h: "successful new_year_env empty_dir"
    by (rule new_year_run_successful)
  have n: "zst_name new_year_env = ''nginx-20270101000009.tar.zst''"
    by code_simp
  have f: "fields_of (now new_year_env)
             = \<lparr>year = 2027, month = 1, day = 1, hour = 0, minute = 0, second = 9\<rparr>"
    by (simp add: new_year_env_def new_year_now.rep_eq)
  have y: "year (fields_of (now new_year_env)) = 2027"
    "month (fields_of (now new_year_env)) = 1" "second (fields_of (now new_year_env)) = 9"
    by (simp_all add: f)
  from output_file_name_and_existence [OF h, unfolded y] h n show ?thesis
    by blast
qed

section \<open>What is archived\<close>

lemma old_run_successful: "successful (demo_env no_fault) with_old_file"
  by code_simp

lemma empty_scratch_run_successful: "successful (demo_env no_fault) with_empty_scratch"
  by code_simp

lemma stale_readme_run_successful: "successful (demo_env no_fault) with_stale_readme"
  by code_simp

text \<open>
  C9, as stated, fails on two counts. A run that starts with an existing, empty scratch
  directory retains an archive with \<^verbatim>\<open>README.txt\<close> alone, so the one-file guarantee does
  not need the directory to be absent. And a file \<^verbatim>\<open>README.txt\<close> already in the
  directory is overwritten, not archived beside the new one.
\<close>

theorem existing_scratch_can_give_one_file_archive:
  "with_empty_scratch TEMP_DIR = Some (Dir []) \<and>
   successful (demo_env no_fault) with_empty_scratch \<and>
   bytes_of (fs (snd (run (demo_env no_fault) with_empty_scratch))) (zst_name (demo_env no_fault))
     = zstd_compress (demo_env no_fault)
         (tar_pack (demo_env no_fault) TEMP_DIR (Dir [(DUMMY_FILE_NAME, File dummy_content)])) \<and>
   with_stale_readme TEMP_DIR = Some (Dir [(DUMMY_FILE_NAME, File ''stale'')]) \<and>
   successful (demo_env no_fault) with_stale_readme \<and>
   bytes_of (fs (snd (run (demo_env no_fault) with_stale_readme))) (zst_name (demo_env no_fault))
     = zstd_compress (demo_env no_fault)
         (tar_pack (demo_env no_fault) TEMP_DIR (Dir [(DUMMY_FILE_NAME, File dummy_content)])) \<and>
   File ''stale'' \<noteq> File dummy_content"
proof -
  have e: "scratch_tree with_empty_scratch = Dir [(DUMMY_FILE_NAME, File dummy_content)]"
    by (simp add: scratch_tree_def scratch_entries_def with_empty_scratch_def dir_put_def)
  have s: "scratch_tree with_stale_readme = Dir [(DUMMY_FILE_NAME, File dummy_content)]"
    by (simp add: scratch_tree_def scratch_entries_def with_stale_readme_def dir_put_def)
  have d: "File ''stale'' \<noteq> File dummy_content"
    by (simp add: dummy_content_def)
  from successful_run_output_file(2) [OF empty_scratch_run_successful]
    successful_run_output_file(2) [OF stale_readme_run_successful]
    empty_scratch_run_successful stale_readme_run_successful d
  show ?thesis
    by (simp add: e s with_empty_scratch_def with_stale_readme_def)
qed

text \<open>
  C9, amended. When the scratch directory exists before a successful run, the archive that
  is compressed into the output file is the archive of that directory with the placeholder
  written into it: every entry that was there under another name than \<^verbatim>\<open>README.txt\<close>
  is in the archive beside the new \<^verbatim>\<open>README.txt\<close>, an older \<^verbatim>\<open>README.txt\<close> is
  replaced, and the archived directory has one entry more than there were entries under
  other names. So it holds \<^verbatim>\<open>README.txt\<close> alone exactly when there was no entry under
  another name.
\<close>

theorem preexisting_scratch_entries_are_archived:
  assumes "successful E fs0" and "fs0 TEMP_DIR = Some (Dir es)"
  shows "bytes_of (fs (snd (run E fs0))) (zst_name E)
           = zstd_compress E
               (tar_pack E TEMP_DIR (Dir (dir_put DUMMY_FILE_NAME (File dummy_content) es))) \<and>
         (\<forall>e \<in> set es. fst e \<noteq> DUMMY_FILE_NAME
            \<longrightarrow> e \<in> set (dir_put DUMMY_FILE_NAME (File dummy_content) es)) \<and>
         (DUMMY_FILE_NAME, File dummy_content)
            \<in> set (dir_put DUMMY_FILE_NAME (File dummy_content) es) \<and>
         (\<forall>v. (DUMMY_FILE_NAME, v) \<in> set (dir_put DUMMY_FILE_NAME (File dummy_content) es)
            \<longrightarrow> v = File dummy_content) \<and>
         length (dir_put DUMMY_FILE_NAME (File dummy_content) es)
           = Suc (length (filter (\<lambda>e. fst e \<noteq> DUMMY_FILE_NAME) es)) \<and>
         (dir_put DUMMY_FILE_NAME (File dummy_content) es = [(DUMMY_FILE_NAME, File dummy_content)]
            \<longleftrightarrow> list_all (\<lambda>e. fst e = DUMMY_FILE_NAME) es)"
  using successful_run_output_file(2) [OF assms(1)] scratch_tree_Dir [of fs0 es, OF assms(2)]
  by (auto simp: dir_put_def filter_empty_conv list_all_iff)

theorem preexisting_scratch_entries_are_archived_witness:
  "successful (demo_env no_fault) with_old_file \<and>
   with_old_file TEMP_DIR = Some (Dir [(''old.txt'', File ''old'')]) \<and>
   bytes_of (fs (snd (run (demo_env no_fault) with_old_file))) (zst_name (demo_env no_fault))
     = zstd_compress (demo_env no_fault)
         (tar_pack (demo_env no_fault) TEMP_DIR
            (Dir [(''old.txt'', File ''old''), (DUMMY_FILE_NAME, File dummy_content)])) \<and>
   (''old.txt'', File ''old'')
     \<in> set (dir_put DUMMY_FILE_NAME (File dummy_content) [(''old.txt'', File ''old'')])"
proof -
  have h: "successful (demo_env no_fault) with_old_file"
    by (rule old_run_successful)
  have d: "with_old_file TEMP_DIR = Some (Dir [(''old.txt'', File ''old'')])"
    by (simp add: with_old_file_def old_tree_def)
  have p: "dir_put DUMMY_FILE_NAME (File dummy_content) [(''old.txt'', File ''old'')]
             = [(''old.txt'', File ''old''), (DUMMY_FILE_NAME, File dummy_content)]"
    by (simp add: dir_put_def DUMMY_FILE_NAME_def)
  from preexisting_scratch_entries_are_archived
      [of "demo_env no_fault" with_old_file "[(''old.txt'', File ''old'')]", OF h d] h d p
  show ?thesis
    by simp
qed

text \<open>
  C3, as stated, fails: a successful run that starts with a file \<^verbatim>\<open>old.txt\<close> in the
  scratch directory retains an archive whose directory holds \<^verbatim>\<open>old.txt\<close> and
  \<^verbatim>\<open>README.txt\<close>, not \<^verbatim>\<open>README.txt\<close> alone.
\<close>

theorem old_file_appears_in_extracted_archive:
  "successful (demo_env no_fault) with_old_file \<and>
   bytes_of (fs (snd (run (demo_env no_fault) with_old_file))) (zst_name (demo_env no_fault))
     = zstd_compress (demo_env no_fault)
         (tar_pack (demo_env no_fault) TEMP_DIR
            (Dir [(''old.txt'', File ''old''), (DUMMY_FILE_NAME, File dummy_content)])) \<and>
   extract_archive demo_unzstd (demo_untar demo_candidates)
      (bytes_of (fs (snd (run (demo_env no_fault) with_old_file))) (zst_name (demo_env no_fault)))
     = Some [(TEMP_DIR, Dir [(''old.txt'', File ''old''), (DUMMY_FILE_NAME, File dummy_content)])] \<and>
   extract_archive demo_unzstd (demo_untar demo_candidates)
      (bytes_of (fs (snd (run (demo_env no_fault) with_old_file))) (zst_name (demo_env no_fault)))
     \<noteq> Some [(TEMP_DIR, Dir [(DUMMY_FILE_NAME, File dummy_content)])]"
  by code_simp

text \<open>
  C3, amended. For every successful run that starts with no scratch directory, or with a
  scratch directory that is a directory proper, not a symbolic link, and holds no entry
  other than a regular file \<^verbatim>\<open>README.txt\<close>: decompressing the retained file and extracting
  the archive, with any decompressor and extractor that invert the compressor and the
  archiver on this archive, yields exactly one top-level entry, the directory named
  \<open>TEMP_DIR\<close> (its base name), holding exactly \<^verbatim>\<open>README.txt\<close> with the two fixed lines.
\<close>

theorem fresh_scratch_archive_roundtrip:
  assumes "successful E fs0" and "scratch_fresh fs0"
    and "unzstd (zstd_compress E (tar_pack E TEMP_DIR placeholder_tree))
           = Some (tar_pack E TEMP_DIR placeholder_tree)"
    and "untar (tar_pack E TEMP_DIR placeholder_tree) = Some [(TEMP_DIR, placeholder_tree)]"
  shows "(\<exists>b. fs (snd (run E fs0)) (zst_name E) = Some (File b)) \<and>
         extract_archive unzstd untar (bytes_of (fs (snd (run E fs0))) (zst_name E))
           = Some [(TEMP_DIR, Dir [(DUMMY_FILE_NAME, File dummy_content)])]"
  using successful_run_output_file [OF assms(1)] scratch_tree_fresh [OF assms(2)] assms(3,4)
  by (simp add: extract_archive_def placeholder_tree_def)

theorem fresh_scratch_archive_roundtrip_witness:
  "successful (demo_env no_fault) empty_dir \<and> scratch_fresh empty_dir \<and>
   demo_unzstd (zstd_compress (demo_env no_fault) (tar_pack (demo_env no_fault) TEMP_DIR placeholder_tree))
     = Some (tar_pack (demo_env no_fault) TEMP_DIR placeholder_tree) \<and>
   demo_untar demo_candidates (tar_pack (demo_env no_fault) TEMP_DIR placeholder_tree)
     = Some [(TEMP_DIR, placeholder_tree)] \<and>
   extract_archive demo_unzstd (demo_untar demo_candidates)
      (bytes_of (fs (snd (run (demo_env no_fault) empty_dir))) (zst_name (demo_env no_fault)))
     = Some [(TEMP_DIR, Dir [(DUMMY_FILE_NAME, File dummy_content)])]"
proof -
  have h: "successful (demo_env no_fault) empty_dir"
    by (rule demo_run_successful)
  have f: "scratch_fresh empty_dir"
    by (simp add: scratch_fresh_def empty_dir_def)
  have z: "demo_unzstd (zstd_compress (demo_env no_fault) (tar_pack (demo_env no_fault) TEMP_DIR placeholder_tree))
             = Some (tar_pack (demo_env no_fault) TEMP_DIR placeholder_tree)"
    by (simp add: demo_unzstd_def demo_env_def)
  have t: "demo_untar demo_candidates (tar_pack (demo_env no_fault) TEMP_DIR placeholder_tree)
             = Some [(TEMP_DIR, placeholder_tree)]"
    by (simp add: demo_untar_def demo_candidates_def demo_env_def)
  from fresh_scratch_archive_roundtrip
      [of "demo_env no_fault" empty_dir demo_unzstd "demo_untar demo_candidates", OF h f z t]
    h f z t show ?thesis
    by simp
qed

section \<open>Runs that raise\<close>

text \<open>
  The status of \<^verbatim>\<open>rm -rf\<close> is dropped: when it fails, the run still ends normally and
  the scratch directory is still there.
\<close>

lemma failed_rm_leaves_scratch:
  "trace (snd (run read_only_around_scratch with_empty_scratch))
     = [MakeDirs, OpenDummy, WriteDummy, OpenTar, RmScratch] \<and>
   fst (run read_only_around_scratch with_empty_scratch) = Exit_normally \<and>
   fs (snd (run read_only_around_scratch with_empty_scratch)) TEMP_DIR = Some (Dir [])"
  by code_simp





text \<open>
  C10. When the call that raised is \<^verbatim>\<open>copy_stream\<close> or one of the two calls that read
  the output file for hashing, the run was not successful and the output file is still in
  the working directory after the run: it holds an initial part of the compressor's
  output, all of it unless \<^verbatim>\<open>copy_stream\<close> itself raised.
\<close>

theorem output_file_left_behind_after_late_failure:
  assumes "last (trace (try_state E fs0)) \<in> {CopyStream, OpenZstIn, ReadZst}"
  shows "\<not> successful E fs0 \<and>
         (\<exists>n. fs (snd (run E fs0)) (zst_name E)
                = Some (File (take n (zstd_compress E (tar_pack E TEMP_DIR (scratch_tree fs0)))))) \<and>
         (last (trace (try_state E fs0)) \<noteq> CopyStream
            \<longrightarrow> fs (snd (run E fs0)) (zst_name E)
                  = Some (File (zstd_compress E (tar_pack E TEMP_DIR (scratch_tree fs0)))))"
proof -
  have ns: "\<not> successful E fs0"
    using assms successful_trace [of E fs0] by (auto simp: happy_path_def)
  from unsuccessful_Raised [OF ns] obtain m s' where r: "try_body E (initial fs0) = Raised m s'"
    by blast
  note ts = try_state_Raised [OF r]
  let ?z = "zstd_compress E (tar_pack E TEMP_DIR (scratch_tree fs0))"
  from failed_try_facts [OF r] assms
  have "(last (trace s') = CopyStream \<and> (\<exists>n. fs s' (zst_name E) = Some (File (take n ?z))))
        \<or> (last (trace s') \<noteq> CopyStream \<and> fs s' (zst_name E) = Some (File ?z))"
    unfolding ts raised_in_archive_def by auto
  moreover have "fs s' (zst_name E) = Some (File ?z) \<Longrightarrow>
      fs s' (zst_name E) = Some (File (take (length ?z) ?z))"
    by simp
  ultimately show ?thesis
    using ns run_keeps_output_file [of E fs0] unfolding ts by metis
qed

theorem output_file_left_behind_after_late_failure_witness:
  "last (trace (try_state compressing_fails empty_dir)) \<in> {CopyStream, OpenZstIn, ReadZst} \<and>
   \<not> successful compressing_fails empty_dir \<and>
   fs (snd (run compressing_fails empty_dir)) (zst_name compressing_fails)
     = Some (File (take 7 (zstd_compress compressing_fails
                             (tar_pack compressing_fails TEMP_DIR placeholder_tree)))) \<and>
   (\<exists>n. fs (snd (run compressing_fails empty_dir)) (zst_name compressing_fails)
          = Some (File (take n (zstd_compress compressing_fails
                (tar_pack compressing_fails TEMP_DIR (scratch_tree empty_dir))))))"
proof -
  have h: "last (trace (try_state compressing_fails empty_dir)) \<in> {CopyStream, OpenZstIn, ReadZst}"
    by code_simp
  have c: "fs (snd (run compressing_fails empty_dir)) (zst_name compressing_fails)
     = Some (File (take 7 (zstd_compress compressing_fails
                             (tar_pack compressing_fails TEMP_DIR placeholder_tree))))"
    by code_simp
  from output_file_left_behind_after_late_failure [OF h] h c show ?thesis
    by blast
qed

section \<open>An existing scratch directory\<close>

text \<open>
  C8. When \<^verbatim>\<open>temp_nginx\<close> is a directory at the start, \<^verbatim>\<open>os.makedirs\<close> completes
  and changes nothing, whatever the operating system would answer to \<^verbatim>\<open>mkdir\<close>, and
  the next call the run starts is the opening of the placeholder file in it. Unless that
  opening fails, the placeholder is then written; and when the writing does not fail
  either, step 1 completes with \<^verbatim>\<open>README.txt\<close> holding the two fixed lines in the
  directory, beside what was there under other names.
\<close>

theorem makedirs_accepts_existing_directory:
  assumes "fs0 TEMP_DIR = Some (Dir es)"
  shows "makedirs E (print (''Creating temporary directory: '' @ TEMP_DIR) (initial fs0))
           = Done (enter MakeDirs (print (''Creating temporary directory: '' @ TEMP_DIR) (initial fs0))) \<and>
         take 2 (trace (snd (run E fs0))) = [MakeDirs, OpenDummy] \<and>
         (fault E OpenDummy = None \<and> \<not> readme_is_dir es
            \<longrightarrow> take 3 (trace (snd (run E fs0))) = [MakeDirs, OpenDummy, WriteDummy]) \<and>
         (fault E OpenDummy = None \<and> fault E WriteDummy = None \<and> \<not> readme_is_dir es
            \<longrightarrow> completed (create_scratch E (initial fs0)) \<and>
                fs (state_of (create_scratch E (initial fs0))) TEMP_DIR
                  = Some (Dir (dir_put DUMMY_FILE_NAME (File dummy_content) es)))"
proof -
  note tr = existing_scratch_try_trace [of fs0 es E, OF assms]
  from run_trace [of E fs0] obtain ks where
    ks: "trace (snd (run E fs0)) = trace (try_state E fs0) @ ks"
    by blast
  have "length (take 2 (trace (try_state E fs0))) = 2"
    by (simp only: tr) simp
  then have len: "2 \<le> length (trace (try_state E fs0))"
    by simp
  have two: "take 2 (trace (snd (run E fs0))) = [MakeDirs, OpenDummy]"
    using len tr by (simp add: ks)
  have "fs (print (''Creating temporary directory: '' @ TEMP_DIR) (initial fs0)) TEMP_DIR
      = Some (Dir es)"
    using assms by simp
  then have mk: "makedirs E (print (''Creating temporary directory: '' @ TEMP_DIR) (initial fs0))
      = Done (enter MakeDirs (print (''Creating temporary directory: '' @ TEMP_DIR) (initial fs0)))"
    by (rule makedirs_existing)
  have three: "take 3 (trace (snd (run E fs0))) = [MakeDirs, OpenDummy, WriteDummy]"
    if "fault E OpenDummy = None" "\<not> readme_is_dir es"
  proof -
    note tr3 = existing_scratch_write_started [of fs0 es E, OF assms that]
    have "length (take 3 (trace (try_state E fs0))) = 3"
      by (simp only: tr3) simp
    then have "3 \<le> length (trace (try_state E fs0))"
      by simp
    then show ?thesis
      using tr3 by (simp add: ks)
  qed
  have init: "fs (initial fs0) TEMP_DIR = Some (Dir es)"
    using assms by simp
  have written: "completed (create_scratch E (initial fs0)) \<and>
      fs (state_of (create_scratch E (initial fs0))) TEMP_DIR
        = Some (Dir (dir_put DUMMY_FILE_NAME (File dummy_content) es))"
    if "fault E OpenDummy = None" "fault E WriteDummy = None" "\<not> readme_is_dir es"
    using create_scratch_existing [OF init that] by simp
  from mk two three written show ?thesis
    by blast
qed

theorem makedirs_accepts_existing_directory_witness:
  "with_old_file TEMP_DIR = Some (Dir [(''old.txt'', File ''old'')]) \<and>
   fault read_only OpenDummy = None \<and> fault read_only WriteDummy = None \<and>
   \<not> readme_is_dir [(''old.txt'', File ''old'')] \<and>
   makedirs read_only (print (''Creating temporary directory: '' @ TEMP_DIR) (initial with_old_file))
     = Done (enter MakeDirs (print (''Creating temporary directory: '' @ TEMP_DIR) (initial with_old_file))) \<and>
   take 3 (trace (snd (run read_only with_old_file))) = [MakeDirs, OpenDummy, WriteDummy] \<and>
   completed (create_scratch read_only (initial with_old_file)) \<and>
   fs (state_of (create_scratch read_only (initial with_old_file))) TEMP_DIR
     = Some (Dir [(''old.txt'', File ''old''), (DUMMY_FILE_NAME, File dummy_content)])"
proof -
  have d: "with_old_file TEMP_DIR = Some (Dir [(''old.txt'', File ''old'')])"
    by (simp add: with_old_file_def old_tree_def)
  have f: "fault read_only OpenDummy = None" "fault read_only WriteDummy = None"
    by (simp_all add: read_only_def demo_env_def fault_at_def)
  have r: "\<not> readme_is_dir [(''old.txt'', File ''old'')]"
    by (simp add: readme_is_dir_def DUMMY_FILE_NAME_def)
  have p: "dir_put DUMMY_FILE_NAME (File dummy_content) [(''old.txt'', File ''old'')]
             = [(''old.txt'', File ''old''), (DUMMY_FILE_NAME, File dummy_content)]"
    by (simp add: dir_put_def DUMMY_FILE_NAME_def)
  from makedirs_accepts_existing_directory
      [of with_old_file "[(''old.txt'', File ''old'')]" read_only, OF d] d f r p
  show ?thesis
    by simp
qed

end
